theory Spec2Isabelle
  imports
    Main
    "HOL-Library.AList"
    "HOL-Library.Product_Lexorder"
begin

section \<open>Python primitives used by the program\<close>

subsection \<open>Exceptions\<close>

text \<open>
  The exceptions that the two modules can raise or that their handlers name, and the
  \<open>RuntimeError\<close> of an iteration over a dict that changes its size.
  A computation that may raise returns \<open>exn + 'a\<close>, with \<open>Inl\<close> for the raised exception.
\<close>

datatype exn =
  KeyError string | AttributeError string | ValueError string | TypeError string
  | RuntimeError string

definition bind_exn :: "exn + 'a \<Rightarrow> ('a \<Rightarrow> exn + 'b) \<Rightarrow> exn + 'b" where
  "bind_exn r k = (case r of Inl e \<Rightarrow> Inl e | Inr a \<Rightarrow> k a)"

subsection \<open>Strings\<close>

text \<open>
  \<open>str.upper\<close> on ASCII text: the letters a..z (codes 97..122) move down by 32, every other
  character stays. Strings are byte lists here, so the model covers ASCII arguments.
\<close>

definition upper_char :: "char \<Rightarrow> char" where
  "upper_char c =
     (let n = (of_char c :: nat) in if 97 \<le> n \<and> n \<le> 122 then char_of (n - 32) else c)"

definition upper :: "string \<Rightarrow> string" where
  "upper s = map upper_char s"

text \<open>\<open>sep.join(xs)\<close>\<close>

fun join :: "string \<Rightarrow> string list \<Rightarrow> string" where
  "join sep [] = []"
| "join sep [x] = x"
| "join sep (x # y # ys) = x @ sep @ join sep (y # ys)"

subsection \<open>Dictionaries\<close>

text \<open>
  A \<open>dict\<close> is an association list in insertion order. \<open>d.get(k, default)\<close>, \<open>d[k]\<close>
  (raising \<open>KeyError\<close>), and \<open>d[k] = v\<close>, which is \<open>AList.update\<close>: an existing key keeps
  its position, a new key goes to the end.
\<close>

definition dict_get :: "('k \<times> 'v) list \<Rightarrow> 'k \<Rightarrow> 'v \<Rightarrow> 'v" where
  "dict_get d k dflt = (case map_of d k of None \<Rightarrow> dflt | Some v \<Rightarrow> v)"

definition dict_getitem :: "('k \<Rightarrow> string) \<Rightarrow> ('k \<times> 'v) list \<Rightarrow> 'k \<Rightarrow> exn + 'v" where
  "dict_getitem repr d k = (case map_of d k of None \<Rightarrow> Inl (KeyError (repr k)) | Some v \<Rightarrow> Inr v)"

subsection \<open>Floats and \<open>round\<close>\<close>

text \<open>
  A Python float is an IEEE 754 binary64 number. A finite one is modelled exactly, as a pair
  \<open>(m, e)\<close> of integers that stands for \<open>m * 2^e\<close>. Every operation works on exact integer
  ratios and rounds once, to a 53-bit significand with ties to the even significand. The model
  covers the normal range (no overflow, no subnormals); every float of this program lies
  between 0.3 and 10.
\<close>

type_synonym float64 = "int \<times> int"

text \<open>\<open>n.bit_length()\<close>: the number of binary digits of a positive integer.\<close>

function bit_length :: "int \<Rightarrow> nat" where
  "bit_length n = (if n \<le> 0 then 0 else Suc (bit_length (n div 2)))"
  by pat_completeness auto
termination
  by (relation "measure nat") auto

declare bit_length.simps [simp del]

text \<open>
  The integer nearest to \<open>num / den\<close> (for \<open>den > 0\<close>), a tie going to the even integer, and
  the same with a tie going away from zero.
\<close>

definition div_half_even :: "int \<Rightarrow> int \<Rightarrow> int" where
  "div_half_even num den =
     (let q = num div den; r = num mod den in
      if 2 * r < den then q
      else if den < 2 * r then q + 1
      else if even q then q else q + 1)"

definition div_half_away :: "int \<Rightarrow> int \<Rightarrow> int" where
  "div_half_away num den =
     (let q = num div den; r = num mod den in
      if 2 * r < den then q
      else if den < 2 * r then q + 1
      else if 0 \<le> num then q + 1 else q)"

text \<open>The value of a float as a ratio of integers with a positive denominator.\<close>

definition float_as_ratio :: "float64 \<Rightarrow> int \<times> int" where
  "float_as_ratio x =
     (case x of (m, e) \<Rightarrow> if 0 \<le> e then (m * 2 ^ nat e, 1) else (m, 2 ^ nat (- e)))"

text \<open>\<open>floor (log2 (num / den))\<close> for positive \<open>num\<close> and \<open>den\<close>.\<close>

definition floor_log2 :: "int \<Rightarrow> int \<Rightarrow> int" where
  "floor_log2 num den =
     (let k = int (bit_length num) - int (bit_length den) in
      if (if 0 \<le> k then den * 2 ^ nat k \<le> num else den \<le> num * 2 ^ nat (- k))
      then k else k - 1)"

text \<open>The binary64 number nearest to \<open>num / den\<close>, for \<open>num \<ge> 0\<close> and \<open>den > 0\<close>.\<close>

definition float_of_ratio :: "int \<Rightarrow> int \<Rightarrow> float64" where
  "float_of_ratio num den =
     (if num = 0 then (0, 0)
      else let e = floor_log2 num den - 52 in
        (if 0 \<le> e then div_half_even num (den * 2 ^ nat e)
         else div_half_even (num * 2 ^ nat (- e)) den, e))"

text \<open>
  \<open>n * x\<close> for an int \<open>n\<close> and a float \<open>x\<close>: \<open>n\<close> converts exactly (it is far below \<open>2^53\<close>),
  and the exact product is rounded once.
\<close>

definition int_times_float :: "int \<Rightarrow> float64 \<Rightarrow> float64" where
  "int_times_float n x = (case float_as_ratio x of (a, b) \<Rightarrow> float_of_ratio (n * a) b)"

text \<open>
  The builtin \<open>round(x)\<close> with one argument returns an int: on a float the nearest integer
  with ties to the even one, on an int the int itself.
\<close>

definition py_round :: "float64 \<Rightarrow> int" where
  "py_round x = (case float_as_ratio x of (a, b) \<Rightarrow> div_half_even a b)"

definition py_round_int :: "int \<Rightarrow> int" where
  "py_round_int n = n"

section \<open>Layer 1: categorical taxonomy\<close>

datatype SubjectType =
  ARCHITECTURE | PORTRAIT | STILL_LIFE | LANDSCAPE | ABSTRACT | PRODUCT | SCENE

datatype EmotionalTone =
  PLAYFUL | TENSE | ABSURD | WHIMSICAL | SURREAL | DRAMATIC | CHAOTIC | ELEGANT | OMINOUS

datatype VisualPriority =
  SCALE | PHYSICS | REPETITION | CLARITY | SUSPENSE | RHYTHM | DISTORTION | BALANCE | FLOW
  | IMPACT

datatype IntensityLevel = SUBTLE | MODERATE | STRONG | EXTREME

text \<open>The \<open>.value\<close> of each member.\<close>

fun SubjectType_value :: "SubjectType \<Rightarrow> string" where
  "SubjectType_value ARCHITECTURE = ''architecture''"
| "SubjectType_value PORTRAIT = ''portrait''"
| "SubjectType_value STILL_LIFE = ''still_life''"
| "SubjectType_value LANDSCAPE = ''landscape''"
| "SubjectType_value ABSTRACT = ''abstract''"
| "SubjectType_value PRODUCT = ''product''"
| "SubjectType_value SCENE = ''scene''"

fun EmotionalTone_value :: "EmotionalTone \<Rightarrow> string" where
  "EmotionalTone_value PLAYFUL = ''playful''"
| "EmotionalTone_value TENSE = ''tense''"
| "EmotionalTone_value ABSURD = ''absurd''"
| "EmotionalTone_value WHIMSICAL = ''whimsical''"
| "EmotionalTone_value SURREAL = ''surreal''"
| "EmotionalTone_value DRAMATIC = ''dramatic''"
| "EmotionalTone_value CHAOTIC = ''chaotic''"
| "EmotionalTone_value ELEGANT = ''elegant''"
| "EmotionalTone_value OMINOUS = ''ominous''"

fun VisualPriority_value :: "VisualPriority \<Rightarrow> string" where
  "VisualPriority_value SCALE = ''scale''"
| "VisualPriority_value PHYSICS = ''physics''"
| "VisualPriority_value REPETITION = ''repetition''"
| "VisualPriority_value CLARITY = ''clarity''"
| "VisualPriority_value SUSPENSE = ''suspense''"
| "VisualPriority_value RHYTHM = ''rhythm''"
| "VisualPriority_value DISTORTION = ''distortion''"
| "VisualPriority_value BALANCE = ''balance''"
| "VisualPriority_value FLOW = ''flow''"
| "VisualPriority_value IMPACT = ''impact''"

fun IntensityLevel_value :: "IntensityLevel \<Rightarrow> string" where
  "IntensityLevel_value SUBTLE = ''subtle''"
| "IntensityLevel_value MODERATE = ''moderate''"
| "IntensityLevel_value STRONG = ''strong''"
| "IntensityLevel_value EXTREME = ''extreme''"

text \<open>
  \<open>E[name]\<close> looks a member up by its name (not by its value) and raises \<open>KeyError\<close> when no
  member has that name. The member names of each enumeration, in declaration order:
\<close>

definition SubjectType_members :: "(string \<times> SubjectType) list" where
  "SubjectType_members =
     [(''ARCHITECTURE'', ARCHITECTURE), (''PORTRAIT'', PORTRAIT), (''STILL_LIFE'', STILL_LIFE),
      (''LANDSCAPE'', LANDSCAPE), (''ABSTRACT'', ABSTRACT), (''PRODUCT'', PRODUCT),
      (''SCENE'', SCENE)]"

definition EmotionalTone_members :: "(string \<times> EmotionalTone) list" where
  "EmotionalTone_members =
     [(''PLAYFUL'', PLAYFUL), (''TENSE'', TENSE), (''ABSURD'', ABSURD),
      (''WHIMSICAL'', WHIMSICAL), (''SURREAL'', SURREAL), (''DRAMATIC'', DRAMATIC),
      (''CHAOTIC'', CHAOTIC), (''ELEGANT'', ELEGANT), (''OMINOUS'', OMINOUS)]"

definition VisualPriority_members :: "(string \<times> VisualPriority) list" where
  "VisualPriority_members =
     [(''SCALE'', SCALE), (''PHYSICS'', PHYSICS), (''REPETITION'', REPETITION),
      (''CLARITY'', CLARITY), (''SUSPENSE'', SUSPENSE), (''RHYTHM'', RHYTHM),
      (''DISTORTION'', DISTORTION), (''BALANCE'', BALANCE), (''FLOW'', FLOW),
      (''IMPACT'', IMPACT)]"

definition IntensityLevel_members :: "(string \<times> IntensityLevel) list" where
  "IntensityLevel_members =
     [(''SUBTLE'', SUBTLE), (''MODERATE'', MODERATE), (''STRONG'', STRONG),
      (''EXTREME'', EXTREME)]"

definition enum_getitem :: "(string \<times> 'e) list \<Rightarrow> string \<Rightarrow> exn + 'e" where
  "enum_getitem members name = dict_getitem (\<lambda>k. k) members name"

section \<open>Layer 2: profile structures\<close>

record SlapstickParameterSet =
  exaggeration :: int
  timing :: int
  physical :: int
  ruleOfThree :: int
  readability :: int
  tension :: int

definition to_dict :: "SlapstickParameterSet \<Rightarrow> (string \<times> int) list" where
  "to_dict self =
     [(''exaggeration'', exaggeration self),
      (''timing'', timing self),
      (''physical'', physical self),
      (''ruleOfThree'', ruleOfThree self),
      (''readability'', readability self),
      (''tension'', tension self)]"

text \<open>The loop of \<open>validate\<close>: the first value outside \<open>0 <= value <= 10\<close> returns \<open>False\<close>.\<close>

fun validate_loop :: "int list \<Rightarrow> bool" where
  "validate_loop [] = True"
| "validate_loop (v # vs) = (if \<not> (0 \<le> v \<and> v \<le> 10) then False else validate_loop vs)"

definition validate :: "SlapstickParameterSet \<Rightarrow> bool" where
  "validate self =
     validate_loop [exaggeration self, timing self, physical self,
                    ruleOfThree self, readability self, tension self]"

record DesignIntent =
  subject_type :: SubjectType
  emotional_tone :: EmotionalTone
  visual_priorities :: "VisualPriority list"
  intensity_level :: IntensityLevel

section \<open>Layer 3: olog morphisms\<close>

definition SUBJECT_TYPE_PRESETS :: "(SubjectType \<times> SlapstickParameterSet) list" where
  "SUBJECT_TYPE_PRESETS =
     [(ARCHITECTURE, \<lparr>exaggeration = 7, timing = 4, physical = 6, ruleOfThree = 7,
                      readability = 6, tension = 8\<rparr>),
      (PORTRAIT, \<lparr>exaggeration = 6, timing = 5, physical = 4, ruleOfThree = 5,
                  readability = 8, tension = 4\<rparr>),
      (STILL_LIFE, \<lparr>exaggeration = 8, timing = 6, physical = 7, ruleOfThree = 8,
                    readability = 7, tension = 6\<rparr>),
      (LANDSCAPE, \<lparr>exaggeration = 7, timing = 7, physical = 8, ruleOfThree = 6,
                   readability = 5, tension = 7\<rparr>),
      (ABSTRACT, \<lparr>exaggeration = 9, timing = 8, physical = 9, ruleOfThree = 7,
                  readability = 4, tension = 8\<rparr>),
      (PRODUCT, \<lparr>exaggeration = 8, timing = 5, physical = 6, ruleOfThree = 7,
                 readability = 9, tension = 5\<rparr>),
      (SCENE, \<lparr>exaggeration = 6, timing = 7, physical = 7, ruleOfThree = 6,
               readability = 6, tension = 7\<rparr>)]"

text \<open>
  The decimal literals \<open>0.3\<close>, \<open>0.6\<close>, \<open>0.85\<close>, \<open>1.0\<close> of \<open>INTENSITY_MULTIPLIERS\<close> as
  ratios, and the table itself: each literal denotes the binary64 number nearest to it.
\<close>

definition INTENSITY_LITERALS :: "(IntensityLevel \<times> int \<times> int) list" where
  "INTENSITY_LITERALS =
     [(SUBTLE, (3, 10)), (MODERATE, (6, 10)), (STRONG, (85, 100)), (EXTREME, (10, 10))]"

definition INTENSITY_MULTIPLIERS :: "(IntensityLevel \<times> float64) list" where
  "INTENSITY_MULTIPLIERS =
     map (\<lambda>(level, (num, den)). (level, float_of_ratio num den)) INTENSITY_LITERALS"

definition EMOTIONAL_TONE_MODIFIERS :: "(EmotionalTone \<times> (string \<times> int) list) list" where
  "EMOTIONAL_TONE_MODIFIERS =
     [(PLAYFUL, [(''timing'', 2), (''physical'', 2), (''ruleOfThree'', 1)]),
      (TENSE, [(''tension'', 3), (''physical'', - 1), (''readability'', 1)]),
      (ABSURD, [(''exaggeration'', 3), (''physical'', 2), (''readability'', - 2)]),
      (WHIMSICAL, [(''timing'', 2), (''ruleOfThree'', 2), (''exaggeration'', 1)]),
      (SURREAL, [(''exaggeration'', 3), (''physical'', 3), (''readability'', - 1)]),
      (DRAMATIC, [(''tension'', 3), (''readability'', 2), (''timing'', 1)]),
      (CHAOTIC, [(''exaggeration'', 2), (''physical'', 3), (''timing'', 2),
                 (''readability'', - 2)]),
      (ELEGANT, [(''readability'', 3), (''ruleOfThree'', 2), (''timing'', 1),
                 (''physical'', - 1)]),
      (OMINOUS, [(''tension'', 4), (''timing'', - 1), (''readability'', 1)])]"

definition VISUAL_PRIORITY_BOOSTS :: "(VisualPriority \<times> string) list" where
  "VISUAL_PRIORITY_BOOSTS =
     [(SCALE, ''exaggeration''),
      (PHYSICS, ''physical''),
      (REPETITION, ''ruleOfThree''),
      (CLARITY, ''readability''),
      (SUSPENSE, ''tension''),
      (RHYTHM, ''timing''),
      (DISTORTION, ''exaggeration''),
      (BALANCE, ''tension''),
      (FLOW, ''timing''),
      (IMPACT, ''physical'')]"

text \<open>Step 2 of \<open>design_intent_to_parameters\<close>: the dict \<open>params\<close> of scaled, rounded values.\<close>

definition scaled_params :: "SlapstickParameterSet \<Rightarrow> float64 \<Rightarrow> (string \<times> int) list" where
  "scaled_params subject_params multiplier =
     [(''exaggeration'', py_round (int_times_float (exaggeration subject_params) multiplier)),
      (''timing'', py_round (int_times_float (timing subject_params) multiplier)),
      (''physical'', py_round (int_times_float (physical subject_params) multiplier)),
      (''ruleOfThree'', py_round (int_times_float (ruleOfThree subject_params) multiplier)),
      (''readability'', py_round (int_times_float (readability subject_params) multiplier)),
      (''tension'', py_round (int_times_float (tension subject_params) multiplier))]"

text \<open>
  Step 3, the loop over \<open>modifiers.items()\<close>: a name that is a key of \<open>params\<close> gets its delta
  and is clamped; any other name is skipped.
\<close>

fun apply_modifiers :: "(string \<times> int) list \<Rightarrow> (string \<times> int) list \<Rightarrow> (string \<times> int) list" where
  "apply_modifiers [] params = params"
| "apply_modifiers ((param_name, delta) # rest) params =
     apply_modifiers rest
       (case map_of params param_name of
          None \<Rightarrow> params
        | Some v \<Rightarrow> AList.update param_name (max 0 (min 10 (v + delta))) params)"

text \<open>
  Step 4, the loop over \<open>design_intent.visual_priorities\<close>: \<open>.get(priority)\<close> is \<open>None\<close> for a
  priority without an entry; the guard \<open>target_param and target_param in params\<close> skips
  \<open>None\<close>, the empty string and a name that is not a key.
\<close>

fun apply_boosts :: "VisualPriority list \<Rightarrow> (string \<times> int) list \<Rightarrow> (string \<times> int) list" where
  "apply_boosts [] params = params"
| "apply_boosts (priority # rest) params =
     apply_boosts rest
       (case map_of VISUAL_PRIORITY_BOOSTS priority of
          None \<Rightarrow> params
        | Some target_param \<Rightarrow>
            if target_param \<noteq> [] then
              (case map_of params target_param of
                 None \<Rightarrow> params
               | Some v \<Rightarrow> AList.update target_param (min 10 (v + 2)) params)
            else params)"

text \<open>Step 5, the loop over the keys: every value is rounded and clamped in place.\<close>

definition final_clamp :: "(string \<times> int) list \<Rightarrow> (string \<times> int) list" where
  "final_clamp params = map (\<lambda>(key, v). (key, max 0 (min 10 (py_round_int v)))) params"

definition design_intent_to_parameters :: "DesignIntent \<Rightarrow> exn + SlapstickParameterSet" where
  "design_intent_to_parameters design_intent =
     bind_exn (dict_getitem SubjectType_value SUBJECT_TYPE_PRESETS SCENE) (\<lambda>scene_preset.
     let subject_params =
           dict_get SUBJECT_TYPE_PRESETS (subject_type design_intent) scene_preset in
     bind_exn (dict_getitem IntensityLevel_value INTENSITY_MULTIPLIERS MODERATE)
       (\<lambda>moderate_multiplier.
     let multiplier =
           dict_get INTENSITY_MULTIPLIERS (intensity_level design_intent) moderate_multiplier;
         params = scaled_params subject_params multiplier;
         modifiers = dict_get EMOTIONAL_TONE_MODIFIERS (emotional_tone design_intent) [];
         params = apply_modifiers modifiers params;
         params = apply_boosts (visual_priorities design_intent) params;
         params = final_clamp params in
     bind_exn (dict_getitem (\<lambda>k. k) params ''exaggeration'') (\<lambda>v1.
     bind_exn (dict_getitem (\<lambda>k. k) params ''timing'') (\<lambda>v2.
     bind_exn (dict_getitem (\<lambda>k. k) params ''physical'') (\<lambda>v3.
     bind_exn (dict_getitem (\<lambda>k. k) params ''ruleOfThree'') (\<lambda>v4.
     bind_exn (dict_getitem (\<lambda>k. k) params ''readability'') (\<lambda>v5.
     bind_exn (dict_getitem (\<lambda>k. k) params ''tension'') (\<lambda>v6.
     Inr \<lparr>exaggeration = v1, timing = v2, physical = v3, ruleOfThree = v4,
          readability = v5, tension = v6\<rparr>))))))))"

definition validate_parameters :: "SlapstickParameterSet \<Rightarrow> bool" where
  "validate_parameters params = validate params"

text \<open>
  \<open>parameters_to_enhancement_description\<close>: one if/elif chain per parameter, each adding one
  entry to the dict \<open>descriptions\<close>.
\<close>

definition describe_level :: "int \<Rightarrow> string \<Rightarrow> string \<Rightarrow> string \<Rightarrow> string \<Rightarrow> string" where
  "describe_level v t9 t6 t3 t0 =
     (if 9 \<le> v then t9 else if 6 \<le> v then t6 else if 3 \<le> v then t3 else t0)"

definition parameters_to_enhancement_description ::
    "SlapstickParameterSet \<Rightarrow> (string \<times> string) list" where
  "parameters_to_enhancement_description params =
     [(''exaggeration'', describe_level (exaggeration params)
         ''extreme distortions with impossible scales''
         ''obvious proportion exaggerations''
         ''subtle scale variations''
         ''minimal exaggeration''),
      (''timing'', describe_level (timing params)
         ''staccato visual interruptions''
         ''strong rhythmic composition''
         ''gentle repetition''
         ''static composition''),
      (''physical'', describe_level (physical params)
         ''extreme elasticity and squash-stretch''
         ''squash and stretch principles''
         ''subtle material flexibility''
         ''realistic physics''),
      (''ruleOfThree'', describe_level (ruleOfThree params)
         ''complex triplet patterns''
         ''clear triplet groupings''
         ''subtle triplet hints''
         ''no triplet emphasis''),
      (''readability'', describe_level (readability params)
         ''crystal clear graphic simplification''
         ''strong silhouette clarity''
         ''subtle graphic emphasis''
         ''complex visual details''),
      (''tension'', describe_level (tension params)
         ''extreme precarious balance''
         ''strong suspenseful moment''
         ''subtle tension''
         ''peaceful balance'')]"

section \<open>Prompt enhancement templates\<close>

text \<open>Each table is a dict from a pair \<open>(min_val, max_val)\<close> to a phrase, in source order.\<close>

type_synonym templates = "((int \<times> int) \<times> string) list"

definition EXAGGERATION_TEMPLATES :: templates where
  "EXAGGERATION_TEMPLATES =
     [((9, 10), ''extreme distortions with impossible scales showing 3-5x size variations, surreal color intensity, warped perspective that shouldn'' @ [CHR 0x27] @ ''t work but does''),
      ((6, 8), ''obvious proportion exaggerations, oversaturated colors and heightened contrast, forced perspective''),
      ((3, 5), ''subtle scale variations and slightly heightened color saturation''),
      ((0, 2), ''realistic proportions and natural color'')]"

definition TIMING_TEMPLATES :: templates where
  "TIMING_TEMPLATES =
     [((9, 10), ''staccato visual interruptions, dramatic motion blur on static objects, speed lines suggesting imminent action''),
      ((6, 8), ''strong rhythmic composition with repeating elements, anticipation spaces and visual pauses between key elements''),
      ((3, 5), ''gentle repetition of visual elements creating compositional rhythm''),
      ((0, 2), ''static composition without temporal elements'')]"

definition PHYSICAL_TEMPLATES :: templates where
  "PHYSICAL_TEMPLATES =
     [((9, 10), ''extreme elasticity and squash-stretch distortion, mid-collision freeze-frame moment, materials stretched or compressed cartoonishly, complete defiance of physics''),
      ((6, 8), ''squash and stretch principles applied to forms, gravity-defying elements, objects mid-fall or impossibly suspended''),
      ((3, 5), ''subtle material flexibility, slight impossibilities in physics''),
      ((0, 2), ''realistic physics and rigid materials'')]"

definition RULE_OF_THREE_TEMPLATES :: templates where
  "RULE_OF_THREE_TEMPLATES =
     [((9, 10), ''complex establish-repeat-subvert patterns, three-part visual jokes in composition, triple visual callbacks, all using rule of thirds positioning''),
      ((6, 8), ''clear triplet groupings, establish one element then systematically repeat-with-variation twice more, visual pattern of three''),
      ((3, 5), ''subtle hints of grouping in threes, occasional triplet arrangement''),
      ((0, 2), ''no emphasis on triplet groupings'')]"

definition READABILITY_TEMPLATES :: templates where
  "READABILITY_TEMPLATES =
     [((9, 10), ''crystal clear graphic simplification and silhouette clarity, high contrast separating subject from background, visual clarity even from distance''),
      ((6, 8), ''strong silhouette clarity and graphic simplification, clear contrast between subject and environment''),
      ((3, 5), ''subtle graphic emphasis with readable forms''),
      ((0, 2), ''complex visual details without simplification'')]"

definition TENSION_TEMPLATES :: templates where
  "TENSION_TEMPLATES =
     [((9, 10), ''extreme precarious balance suggesting imminent collapse, maximum suspense and about-to-happen energy, frozen moment of chaos''),
      ((6, 8), ''strong suspenseful moment with clear tension, objects at unstable angles, sense of impending action''),
      ((3, 5), ''subtle underlying tension and unease''),
      ((0, 2), ''peaceful balanced composition'')]"

definition NEGATIVE_PROMPT_COMPONENTS :: "(string \<times> string) list" where
  "NEGATIVE_PROMPT_COMPONENTS =
     [(''high_exaggeration'', ''realistic proportions, natural colors, subtle''),
      (''high_timing'', ''static composition, no motion, no rhythm''),
      (''high_physical'', ''realistic physics, rigid materials, no distortion''),
      (''high_rule_of_three'', ''no pattern, no rhythm, random composition''),
      (''low_readability'', ''cluttered, confusing, unclear silhouette''),
      (''high_tension'', ''peaceful, calm, balanced, serene'')]"

text \<open>
  \<open>sorted(templates.items(), reverse=True)\<close>: the items in descending order of their key, the
  pair \<open>(min_val, max_val)\<close> compared lexicographically. The keys of a dict are distinct, so
  the phrase never decides the order and descending order is the reverse of ascending order.
\<close>

definition sorted_items_reverse :: "templates \<Rightarrow> templates" where
  "sorted_items_reverse items = rev (sort_key fst items)"

fun get_template_loop :: "int \<Rightarrow> templates \<Rightarrow> string" where
  "get_template_loop param_value [] = []"
| "get_template_loop param_value (((min_val, max_val), text) # rest) =
     (if min_val \<le> param_value \<and> param_value \<le> max_val then text
      else get_template_loop param_value rest)"

definition get_template :: "int \<Rightarrow> templates \<Rightarrow> string" where
  "get_template param_value templates =
     get_template_loop param_value (sorted_items_reverse templates)"

text \<open>\<open>if text: additions.append(text)\<close>: a non-empty string is appended.\<close>

definition append_if_nonempty :: "string list \<Rightarrow> string \<Rightarrow> string list" where
  "append_if_nonempty additions text = (if text \<noteq> [] then additions @ [text] else additions)"

text \<open>The list \<open>additions\<close> of \<open>build_enhanced_prompt\<close> when its six blocks have run.\<close>

definition enhancement_additions :: "SlapstickParameterSet \<Rightarrow> string list" where
  "enhancement_additions params =
     (let additions = [];
          additions = append_if_nonempty additions
            (get_template (exaggeration params) EXAGGERATION_TEMPLATES);
          additions = append_if_nonempty additions
            (get_template (timing params) TIMING_TEMPLATES);
          additions = append_if_nonempty additions
            (get_template (physical params) PHYSICAL_TEMPLATES);
          additions = append_if_nonempty additions
            (get_template (ruleOfThree params) RULE_OF_THREE_TEMPLATES);
          additions = append_if_nonempty additions
            (get_template (readability params) READABILITY_TEMPLATES);
          additions = append_if_nonempty additions
            (get_template (tension params) TENSION_TEMPLATES)
      in additions)"

definition build_enhanced_prompt :: "string \<Rightarrow> SlapstickParameterSet \<Rightarrow> string" where
  "build_enhanced_prompt base_prompt params =
     (let additions = enhancement_additions params in
      if additions \<noteq> [] then base_prompt @ '', '' @ join '', '' additions
      else base_prompt)"

text \<open>
  One block of \<open>build_negative_prompt\<close>: when the gate holds, the component is looked up
  (\<open>KeyError\<close> for a missing key) and appended.
\<close>

definition append_component :: "bool \<Rightarrow> string \<Rightarrow> string list \<Rightarrow> exn + string list" where
  "append_component gate key negatives =
     (if gate then
        bind_exn (dict_getitem (\<lambda>k. k) NEGATIVE_PROMPT_COMPONENTS key)
          (\<lambda>component. Inr (negatives @ [component]))
      else Inr negatives)"

text \<open>The list \<open>negatives\<close> of \<open>build_negative_prompt\<close> when its six blocks have run.\<close>

definition negative_components :: "SlapstickParameterSet \<Rightarrow> exn + string list" where
  "negative_components params =
     bind_exn (append_component (6 \<le> exaggeration params) ''high_exaggeration'' [])
       (\<lambda>negatives.
     bind_exn (append_component (6 \<le> timing params) ''high_timing'' negatives)
       (\<lambda>negatives.
     bind_exn (append_component (6 \<le> physical params) ''high_physical'' negatives)
       (\<lambda>negatives.
     bind_exn (append_component (6 \<le> ruleOfThree params) ''high_rule_of_three'' negatives)
       (\<lambda>negatives.
     bind_exn (append_component (8 \<le> readability params) ''low_readability'' negatives)
       (\<lambda>negatives.
     append_component (6 \<le> tension params) ''high_tension'' negatives)))))"

definition build_negative_prompt :: "SlapstickParameterSet \<Rightarrow> exn + string" where
  "build_negative_prompt params =
     bind_exn (negative_components params) (\<lambda>negatives.
     let base_negatives = [''blurry'', ''low quality'', ''distorted'', ''ugly''] in
     Inr (if negatives \<noteq> [] then join '', '' (base_negatives @ negatives)
          else join '', '' base_negatives))"

section \<open>MCP tools\<close>

text \<open>
  A tool returns a dict: \<open>{"error": ...}\<close>, or the result of one of the three tools, whose
  \<open>parameters_used\<close> / \<open>parameters\<close> entry is \<open>params.to_dict()\<close>.
\<close>

datatype response =
    ErrorResponse string
  | IntentResponse "(string \<times> int) list" string string string
  | ParametersResponse "(string \<times> int) list" string string
  | DescriptionResponse "(string \<times> string) list" "(string \<times> int) list"

text \<open>
  Inside a \<open>try\<close> block a statement raises, returns from the function, or goes on to the next
  statement with a value.
\<close>

datatype 'a flow = Raised exn | Returned response | Normal 'a

definition then_flow :: "'a flow \<Rightarrow> ('a \<Rightarrow> 'b flow) \<Rightarrow> 'b flow" where
  "then_flow s k = (case s of Raised e \<Rightarrow> Raised e | Returned r \<Rightarrow> Returned r | Normal a \<Rightarrow> k a)"

definition flow_of :: "exn + 'a \<Rightarrow> 'a flow" where
  "flow_of r = (case r of Inl e \<Rightarrow> Raised e | Inr a \<Rightarrow> Normal a)"

text \<open>
  The loop over \<open>visual_priorities\<close>, with its own \<open>try\<close>: a \<open>KeyError\<close> of the member lookup
  returns the error response of the tool.
\<close>

fun convert_priorities :: "string list \<Rightarrow> VisualPriority list \<Rightarrow> VisualPriority list flow" where
  "convert_priorities [] priorities = Normal priorities"
| "convert_priorities (priority_str # rest) priorities =
     (case enum_getitem VisualPriority_members (upper priority_str) of
        Inl (KeyError k) \<Rightarrow>
          Returned (ErrorResponse (''Invalid visual priority: '' @ priority_str))
      | Inl e \<Rightarrow> Raised e
      | Inr p \<Rightarrow> convert_priorities rest (priorities @ [p]))"

text \<open>
  The attribute \<open>value\<close> of a \<open>str\<close>: a \<open>str\<close> has no such attribute, so the access raises
  \<open>AttributeError\<close>.
\<close>

definition str_value :: "string \<Rightarrow> exn + string" where
  "str_value s =
     Inl (AttributeError ([CHR 0x27] @ ''str'' @ [CHR 0x27] @ '' object has no attribute ''
                          @ [CHR 0x27] @ ''value'' @ [CHR 0x27]))"

text \<open>
  The body of the \<open>try\<close> block of \<open>enhance_with_intent\<close>. The summary reads
  \<open>intensity_level.value\<close> on the member and \<open>emotional_tone.value\<close> on the string argument
  \<open>emotional_tone\<close> (the member is the local \<open>emotion\<close>).
\<close>

definition enhance_with_intent_try ::
    "string \<Rightarrow> string \<Rightarrow> string \<Rightarrow> string list \<Rightarrow> string \<Rightarrow> response flow" where
  "enhance_with_intent_try base_prompt subject_type_arg emotional_tone_arg
       visual_priorities_arg intensity =
     then_flow (flow_of (enum_getitem SubjectType_members (upper subject_type_arg)))
       (\<lambda>subject.
     then_flow (flow_of (enum_getitem EmotionalTone_members (upper emotional_tone_arg)))
       (\<lambda>emotion.
     then_flow (flow_of (enum_getitem IntensityLevel_members (upper intensity)))
       (\<lambda>level.
     then_flow (convert_priorities visual_priorities_arg [])
       (\<lambda>priorities.
     let design_intent =
           \<lparr>subject_type = subject, emotional_tone = emotion,
            visual_priorities = priorities, intensity_level = level\<rparr> in
     then_flow (flow_of (design_intent_to_parameters design_intent))
       (\<lambda>params.
     if \<not> validate_parameters params then
       Returned (ErrorResponse ''Invalid parameters generated'')
     else
     let enhanced_prompt = build_enhanced_prompt base_prompt params in
     then_flow (flow_of (build_negative_prompt params))
       (\<lambda>negative_prompt.
     let visual_priorities_str =
           (if priorities \<noteq> [] then join '', '' (map VisualPriority_value priorities)
            else ''none specified'') in
     then_flow (flow_of (str_value emotional_tone_arg))
       (\<lambda>emotional_tone_value.
     let summary =
           ''Applied '' @ IntensityLevel_value level @ '' '' @ emotional_tone_value
           @ '' treatment to '' @ subject_type_arg @ '', emphasizing ''
           @ visual_priorities_str in
     Returned (IntentResponse (to_dict params) enhanced_prompt negative_prompt
                 summary))))))))"

text \<open>\<open>except ValueError as e\<close>: only a \<open>ValueError\<close> becomes an error response.\<close>

definition enhance_with_intent ::
    "string \<Rightarrow> string \<Rightarrow> string \<Rightarrow> string list \<Rightarrow> string \<Rightarrow> exn + response" where
  "enhance_with_intent base_prompt subject_type_arg emotional_tone_arg
       visual_priorities_arg intensity =
     (case enhance_with_intent_try base_prompt subject_type_arg emotional_tone_arg
             visual_priorities_arg intensity of
        Raised (ValueError msg) \<Rightarrow> Inr (ErrorResponse (''Invalid input: '' @ msg))
      | Raised e \<Rightarrow> Inl e
      | Returned r \<Rightarrow> Inr r
      | Normal r \<Rightarrow> Inr r)"

text \<open>
  The six parameters are declared \<open>int\<close>; \<open>int(n)\<close> on an int is the int itself. The
  argument of each field is \<open>max(0, min(10, int(n)))\<close>.
\<close>

definition py_int :: "int \<Rightarrow> exn + int" where
  "py_int n = Inr n"

definition clamped_parameter_set ::
    "int \<Rightarrow> int \<Rightarrow> int \<Rightarrow> int \<Rightarrow> int \<Rightarrow> int \<Rightarrow> exn + SlapstickParameterSet" where
  "clamped_parameter_set exaggeration_arg timing_arg physical_arg ruleOfThree_arg
       readability_arg tension_arg =
     bind_exn (py_int exaggeration_arg) (\<lambda>n1.
     bind_exn (py_int timing_arg) (\<lambda>n2.
     bind_exn (py_int physical_arg) (\<lambda>n3.
     bind_exn (py_int ruleOfThree_arg) (\<lambda>n4.
     bind_exn (py_int readability_arg) (\<lambda>n5.
     bind_exn (py_int tension_arg) (\<lambda>n6.
     Inr \<lparr>exaggeration = max 0 (min 10 n1), timing = max 0 (min 10 n2),
          physical = max 0 (min 10 n3), ruleOfThree = max 0 (min 10 n4),
          readability = max 0 (min 10 n5), tension = max 0 (min 10 n6)\<rparr>))))))"

text \<open>\<open>except (ValueError, TypeError) as e\<close>\<close>

definition except_ValueError_TypeError :: "response flow \<Rightarrow> exn + response" where
  "except_ValueError_TypeError s =
     (case s of
        Raised (ValueError msg) \<Rightarrow> Inr (ErrorResponse (''Invalid parameter value: '' @ msg))
      | Raised (TypeError msg) \<Rightarrow> Inr (ErrorResponse (''Invalid parameter value: '' @ msg))
      | Raised e \<Rightarrow> Inl e
      | Returned r \<Rightarrow> Inr r
      | Normal r \<Rightarrow> Inr r)"

definition enhance_with_parameters ::
    "string \<Rightarrow> int \<Rightarrow> int \<Rightarrow> int \<Rightarrow> int \<Rightarrow> int \<Rightarrow> int \<Rightarrow> exn + response" where
  "enhance_with_parameters base_prompt exaggeration_arg timing_arg physical_arg
       ruleOfThree_arg readability_arg tension_arg =
     except_ValueError_TypeError
       (then_flow (flow_of (clamped_parameter_set exaggeration_arg timing_arg physical_arg
                              ruleOfThree_arg readability_arg tension_arg))
          (\<lambda>params.
        if \<not> validate params then
          Returned (ErrorResponse ''Parameters must be between 0 and 10'')
        else
        let enhanced_prompt = build_enhanced_prompt base_prompt params in
        then_flow (flow_of (build_negative_prompt params))
          (\<lambda>negative_prompt.
        Returned (ParametersResponse (to_dict params) enhanced_prompt negative_prompt))))"

definition describe_parameters ::
    "int \<Rightarrow> int \<Rightarrow> int \<Rightarrow> int \<Rightarrow> int \<Rightarrow> int \<Rightarrow> exn + response" where
  "describe_parameters exaggeration_arg timing_arg physical_arg ruleOfThree_arg
       readability_arg tension_arg =
     except_ValueError_TypeError
       (then_flow (flow_of (clamped_parameter_set exaggeration_arg timing_arg physical_arg
                              ruleOfThree_arg readability_arg tension_arg))
          (\<lambda>params.
        let descriptions = parameters_to_enhancement_description params in
        Returned (DescriptionResponse descriptions (to_dict params))))"

text \<open>\<open>get_available_options\<close>: the values of the members of each enumeration.\<close>

definition get_available_options :: "(string \<times> string list) list" where
  "get_available_options =
     [(''subject_types'', map (\<lambda>(name, st). SubjectType_value st) SubjectType_members),
      (''emotional_tones'', map (\<lambda>(name, et). EmotionalTone_value et) EmotionalTone_members),
      (''visual_priorities'',
         map (\<lambda>(name, vp). VisualPriority_value vp) VisualPriority_members),
      (''intensity_levels'',
         map (\<lambda>(name, il). IntensityLevel_value il) IntensityLevel_members)]"

section \<open>The resolver on the interpreter state\<close>

text \<open>
  The tables of \<open>SlapstickOlogMorphisms\<close> are class attributes bound to dict objects, the
  presets are \<open>SlapstickParameterSet\<close> objects and the tone modifiers are dict objects; all of
  them are mutable and shared between calls. This section models one call of
  \<open>design_intent_to_parameters\<close> on an explicit interpreter state: a heap from addresses to
  objects, an allocator, and the four class attributes. Ints, floats, strings and enumeration
  members are immutable and stay values. The source reads no clock and no random source, so
  the state is everything a call can read besides its argument.
\<close>

type_synonym addr = nat

datatype obj =
    ParameterSetObj SlapstickParameterSet
  | StrIntDictObj "(string \<times> int) list"
  | PresetDictObj "(SubjectType \<times> addr) list"
  | MultiplierDictObj "(IntensityLevel \<times> float64) list"
  | ModifierDictObj "(EmotionalTone \<times> addr) list"
  | BoostDictObj "(VisualPriority \<times> string) list"

record py_state =
  heap :: "addr \<Rightarrow> obj option"
  next_addr :: addr
  attr_SUBJECT_TYPE_PRESETS :: addr
  attr_INTENSITY_MULTIPLIERS :: addr
  attr_EMOTIONAL_TONE_MODIFIERS :: addr
  attr_VISUAL_PRIORITY_BOOSTS :: addr

text \<open>
  A statement runs on a state and either raises or yields a value, with the state it leaves.
\<close>

type_synonym 'a st = "py_state \<Rightarrow> (exn + 'a) \<times> py_state"

definition bind_st :: "'a st \<Rightarrow> ('a \<Rightarrow> 'b st) \<Rightarrow> 'b st" where
  "bind_st m k s = (case m s of (Inl e, s') \<Rightarrow> (Inl e, s') | (Inr a, s') \<Rightarrow> k a s')"

definition lift_exn :: "exn + 'a \<Rightarrow> 'a st" where
  "lift_exn r s = (r, s)"

text \<open>
  Writing an object at an address, and creating a new object at the next free address.
\<close>

definition put_obj :: "addr \<Rightarrow> obj \<Rightarrow> py_state \<Rightarrow> py_state" where
  "put_obj a ob s = s\<lparr>heap := (heap s)(a \<mapsto> ob)\<rparr>"

definition allocated :: "obj \<Rightarrow> py_state \<Rightarrow> py_state" where
  "allocated ob s = (put_obj (next_addr s) ob s)\<lparr>next_addr := Suc (next_addr s)\<rparr>"

definition alloc :: "obj \<Rightarrow> addr st" where
  "alloc ob s = (Inr (next_addr s), allocated ob s)"

definition store :: "addr \<Rightarrow> obj \<Rightarrow> unit st" where
  "store a ob s = (Inr (), put_obj a ob s)"

text \<open>
  Reading an object of the expected kind. The program creates no object of another kind at
  these places; such an object raises \<open>TypeError\<close>.
\<close>

definition load_presets :: "addr \<Rightarrow> (SubjectType \<times> addr) list st" where
  "load_presets a s =
     (case heap s a of Some (PresetDictObj d) \<Rightarrow> (Inr d, s)
      | _ \<Rightarrow> (Inl (TypeError ''not a dict of presets''), s))"

definition load_multipliers :: "addr \<Rightarrow> (IntensityLevel \<times> float64) list st" where
  "load_multipliers a s =
     (case heap s a of Some (MultiplierDictObj d) \<Rightarrow> (Inr d, s)
      | _ \<Rightarrow> (Inl (TypeError ''not a dict of multipliers''), s))"

definition load_modifiers :: "addr \<Rightarrow> (EmotionalTone \<times> addr) list st" where
  "load_modifiers a s =
     (case heap s a of Some (ModifierDictObj d) \<Rightarrow> (Inr d, s)
      | _ \<Rightarrow> (Inl (TypeError ''not a dict of modifiers''), s))"

definition load_boosts :: "addr \<Rightarrow> (VisualPriority \<times> string) list st" where
  "load_boosts a s =
     (case heap s a of Some (BoostDictObj d) \<Rightarrow> (Inr d, s)
      | _ \<Rightarrow> (Inl (TypeError ''not a dict of boosts''), s))"

definition load_parameter_set :: "addr \<Rightarrow> SlapstickParameterSet st" where
  "load_parameter_set a s =
     (case heap s a of Some (ParameterSetObj p) \<Rightarrow> (Inr p, s)
      | _ \<Rightarrow> (Inl (TypeError ''not a parameter set''), s))"

definition load_dict :: "addr \<Rightarrow> (string \<times> int) list st" where
  "load_dict a s =
     (case heap s a of Some (StrIntDictObj d) \<Rightarrow> (Inr d, s)
      | _ \<Rightarrow> (Inl (TypeError ''not a dict of ints''), s))"

text \<open>
  Iterating over a dict visits the entries of the live object by position, and raises
  \<open>RuntimeError\<close> when the dict has changed its size.
\<close>

definition size_changed :: exn where
  "size_changed = RuntimeError ''dictionary changed size during iteration''"

text \<open>
  Step 3, \<open>for param_name, delta in modifiers.items()\<close>: each round reads the entry of the
  dict at \<open>modifiers_ref\<close> and reads and writes the dict at \<open>params_ref\<close>.
\<close>

fun modifiers_loop :: "nat list \<Rightarrow> addr \<Rightarrow> addr \<Rightarrow> unit st" where
  "modifiers_loop [] modifiers_ref params_ref s = (Inr (), s)"
| "modifiers_loop (i # rest) modifiers_ref params_ref s =
     (case load_dict modifiers_ref s of
        (Inl e, s1) \<Rightarrow> (Inl e, s1)
      | (Inr items, s1) \<Rightarrow>
          if length items \<le> i then (Inl size_changed, s1)
          else
            (case load_dict params_ref s1 of
               (Inl e, s2) \<Rightarrow> (Inl e, s2)
             | (Inr params, s2) \<Rightarrow>
                 (case map_of params (fst (items ! i)) of
                    None \<Rightarrow> modifiers_loop rest modifiers_ref params_ref s2
                  | Some v \<Rightarrow>
                      (case store params_ref
                              (StrIntDictObj
                                 (AList.update (fst (items ! i))
                                    (max 0 (min 10 (v + snd (items ! i)))) params)) s2 of
                         (Inl e, s3) \<Rightarrow> (Inl e, s3)
                       | (Inr u, s3) \<Rightarrow> modifiers_loop rest modifiers_ref params_ref s3))))"

text \<open>
  Step 4, \<open>for priority in design_intent.visual_priorities\<close>: each round reads the class
  attribute \<open>VISUAL_PRIORITY_BOOSTS\<close> and reads and writes the dict at \<open>params_ref\<close>.
\<close>

fun boosts_loop :: "VisualPriority list \<Rightarrow> addr \<Rightarrow> unit st" where
  "boosts_loop [] params_ref s = (Inr (), s)"
| "boosts_loop (priority # rest) params_ref s =
     (case load_boosts (attr_VISUAL_PRIORITY_BOOSTS s) s of
        (Inl e, s1) \<Rightarrow> (Inl e, s1)
      | (Inr boosts, s1) \<Rightarrow>
          (case map_of boosts priority of
             None \<Rightarrow> boosts_loop rest params_ref s1
           | Some target_param \<Rightarrow>
               if target_param \<noteq> [] then
                 (case load_dict params_ref s1 of
                    (Inl e, s2) \<Rightarrow> (Inl e, s2)
                  | (Inr params, s2) \<Rightarrow>
                      (case map_of params target_param of
                         None \<Rightarrow> boosts_loop rest params_ref s2
                       | Some v \<Rightarrow>
                           (case store params_ref
                                   (StrIntDictObj
                                      (AList.update target_param (min 10 (v + 2)) params))
                                   s2 of
                              (Inl e, s3) \<Rightarrow> (Inl e, s3)
                            | (Inr u, s3) \<Rightarrow> boosts_loop rest params_ref s3)))
               else boosts_loop rest params_ref s1))"

text \<open>Step 5, \<open>for key in params\<close>: each round reads and writes the dict at \<open>params_ref\<close>.\<close>

fun clamp_loop :: "nat list \<Rightarrow> addr \<Rightarrow> unit st" where
  "clamp_loop [] params_ref s = (Inr (), s)"
| "clamp_loop (i # rest) params_ref s =
     (case load_dict params_ref s of
        (Inl e, s1) \<Rightarrow> (Inl e, s1)
      | (Inr params, s1) \<Rightarrow>
          if length params \<le> i then (Inl size_changed, s1)
          else
            (case dict_getitem (\<lambda>k. k) params (fst (params ! i)) of
               Inl e \<Rightarrow> (Inl e, s1)
             | Inr v \<Rightarrow>
                 (case store params_ref
                         (StrIntDictObj
                            (AList.update (fst (params ! i))
                               (max 0 (min 10 (py_round_int v))) params)) s1 of
                    (Inl e, s2) \<Rightarrow> (Inl e, s2)
                  | (Inr u, s2) \<Rightarrow> clamp_loop rest params_ref s2)))"

text \<open>
  The call. \<open>subject_params\<close> and \<open>modifiers\<close> are references to objects of the tables;
  \<open>params\<close> is a new dict, the default \<open>{}\<close> of the third \<open>.get\<close> is a new dict, and the
  result is a new \<open>SlapstickParameterSet\<close>, whose address is returned.
\<close>

definition design_intent_to_parameters_st :: "DesignIntent \<Rightarrow> addr st" where
  "design_intent_to_parameters_st design_intent =
     bind_st (\<lambda>s. load_presets (attr_SUBJECT_TYPE_PRESETS s) s) (\<lambda>presets.
     bind_st (lift_exn (dict_getitem SubjectType_value presets SCENE)) (\<lambda>scene_ref.
     let subject_params_ref = dict_get presets (subject_type design_intent) scene_ref in
     bind_st (\<lambda>s. load_multipliers (attr_INTENSITY_MULTIPLIERS s) s) (\<lambda>multipliers.
     bind_st (lift_exn (dict_getitem IntensityLevel_value multipliers MODERATE))
       (\<lambda>moderate_multiplier.
     let multiplier =
           dict_get multipliers (intensity_level design_intent) moderate_multiplier in
     bind_st (load_parameter_set subject_params_ref) (\<lambda>subject_params.
     bind_st (alloc (StrIntDictObj (scaled_params subject_params multiplier))) (\<lambda>params_ref.
     bind_st (\<lambda>s. load_modifiers (attr_EMOTIONAL_TONE_MODIFIERS s) s) (\<lambda>tone_modifiers.
     bind_st (alloc (StrIntDictObj [])) (\<lambda>empty_ref.
     let modifiers_ref = dict_get tone_modifiers (emotional_tone design_intent) empty_ref in
     bind_st (load_dict modifiers_ref) (\<lambda>items.
     bind_st (modifiers_loop [0..<length items] modifiers_ref params_ref) (\<lambda>u.
     bind_st (boosts_loop (visual_priorities design_intent) params_ref) (\<lambda>u.
     bind_st (load_dict params_ref) (\<lambda>params.
     bind_st (clamp_loop [0..<length params] params_ref) (\<lambda>u.
     bind_st (load_dict params_ref) (\<lambda>params.
     bind_st (lift_exn (dict_getitem (\<lambda>k. k) params ''exaggeration'')) (\<lambda>v1.
     bind_st (lift_exn (dict_getitem (\<lambda>k. k) params ''timing'')) (\<lambda>v2.
     bind_st (lift_exn (dict_getitem (\<lambda>k. k) params ''physical'')) (\<lambda>v3.
     bind_st (lift_exn (dict_getitem (\<lambda>k. k) params ''ruleOfThree'')) (\<lambda>v4.
     bind_st (lift_exn (dict_getitem (\<lambda>k. k) params ''readability'')) (\<lambda>v5.
     bind_st (lift_exn (dict_getitem (\<lambda>k. k) params ''tension'')) (\<lambda>v6.
     alloc (ParameterSetObj
              \<lparr>exaggeration = v1, timing = v2, physical = v3, ruleOfThree = v4,
               readability = v5, tension = v6\<rparr>)))))))))))))))))))))"

text \<open>The parameter set that a call returns: the object at the returned address.\<close>

definition returned_parameters :: "DesignIntent \<Rightarrow> py_state \<Rightarrow> exn + SlapstickParameterSet" where
  "returned_parameters design_intent s =
     fst (bind_st (design_intent_to_parameters_st design_intent) load_parameter_set s)"

text \<open>
  The state after the module has been imported: the seven preset objects at addresses 0 to
  6, the nine modifier dicts at 7 to 15, and the four tables at 16 to 19.
\<close>

definition initial_objects :: "obj list" where
  "initial_objects =
     map (\<lambda>(k, p). ParameterSetObj p) SUBJECT_TYPE_PRESETS
     @ map (\<lambda>(k, d). StrIntDictObj d) EMOTIONAL_TONE_MODIFIERS
     @ [PresetDictObj (zip (map fst SUBJECT_TYPE_PRESETS) [0, 1, 2, 3, 4, 5, 6]),
        MultiplierDictObj INTENSITY_MULTIPLIERS,
        ModifierDictObj
          (zip (map fst EMOTIONAL_TONE_MODIFIERS) [7, 8, 9, 10, 11, 12, 13, 14, 15]),
        BoostDictObj VISUAL_PRIORITY_BOOSTS]"

definition initial_state :: py_state where
  "initial_state =
     \<lparr>heap = (\<lambda>a. if a < length initial_objects then Some (initial_objects ! a) else None),
      next_addr = length initial_objects,
      attr_SUBJECT_TYPE_PRESETS = 16,
      attr_INTENSITY_MULTIPLIERS = 17,
      attr_EMOTIONAL_TONE_MODIFIERS = 18,
      attr_VISUAL_PRIORITY_BOOSTS = 19\<rparr>"

text \<open>
  A state in which the objects of the module are as they were after the import: the class
  attributes are bound as then, and every address below the first free address of the
  initial state holds the object it held then. Anything else in the heap is arbitrary.
\<close>

definition module_intact :: "py_state \<Rightarrow> bool" where
  "module_intact s =
     (attr_SUBJECT_TYPE_PRESETS s = attr_SUBJECT_TYPE_PRESETS initial_state
      \<and> attr_INTENSITY_MULTIPLIERS s = attr_INTENSITY_MULTIPLIERS initial_state
      \<and> attr_EMOTIONAL_TONE_MODIFIERS s = attr_EMOTIONAL_TONE_MODIFIERS initial_state
      \<and> attr_VISUAL_PRIORITY_BOOSTS s = attr_VISUAL_PRIORITY_BOOSTS initial_state
      \<and> next_addr initial_state \<le> next_addr s
      \<and> list_all (\<lambda>a. heap s a = heap initial_state a) [0..<next_addr initial_state])"

section \<open>Auxiliary notions\<close>

text \<open>
  The keys of the dict \<open>params\<close> of \<open>design_intent_to_parameters\<close>, in insertion order, and
  the invariant of its loops: the keys stay these six and every value stays in \<open>[0, 10]\<close>.
\<close>

definition parameter_names :: "string list" where
  "parameter_names = [''exaggeration'', ''timing'', ''physical'', ''ruleOfThree'', ''readability'', ''tension'']"

definition in_bounds :: "(string \<times> int) list \<Rightarrow> bool" where
  "in_bounds params = (\<forall>v \<in> snd ` set params. 0 \<le> v \<and> v \<le> 10)"

definition well_formed :: "(string \<times> int) list \<Rightarrow> bool" where
  "well_formed params = (map fst params = parameter_names \<and> in_bounds params)"

text \<open>
  \<open>resolved_params\<close> is the dict \<open>params\<close> after step 4, with the two defaults of the
  \<open>.get\<close> calls evaluated.
\<close>

definition resolved_params :: "DesignIntent \<Rightarrow> (string \<times> int) list" where
  "resolved_params di =
     apply_boosts (visual_priorities di)
       (apply_modifiers (dict_get EMOTIONAL_TONE_MODIFIERS (emotional_tone di) [])
          (scaled_params
             (dict_get SUBJECT_TYPE_PRESETS (subject_type di)
                \<lparr>exaggeration = 6, timing = 7, physical = 7, ruleOfThree = 6,
                 readability = 6, tension = 7\<rparr>)
             (dict_get INTENSITY_MULTIPLIERS (intensity_level di) (5404319552844595, - 53))))"

text \<open>
  Rounding a float to the nearest integer with a tie going away from zero, and the four
  roundings that the scaling step is compared with: Python's \<open>round\<close> of the float product,
  half-away rounding of the float product, and both roundings of the exact decimal product
  \<open>v * num / den\<close>.
\<close>

definition py_round_half_away :: "float64 \<Rightarrow> int" where
  "py_round_half_away x = (case float_as_ratio x of (a, b) \<Rightarrow> div_half_away a b)"

definition roundings :: "int \<Rightarrow> float64 \<Rightarrow> int \<Rightarrow> int \<Rightarrow> int list" where
  "roundings v m num den =
     [py_round (int_times_float v m), py_round_half_away (int_times_float v m),
      div_half_even (v * num) den, div_half_away (v * num) den]"

text \<open>
  The IEEE 754 rule that the float operations are checked against: \<open>x\<close> is the binary64
  number nearest to \<open>num / den\<close> when its significand has 53 bits and the distance is below
  half a unit in the last place, or is exactly half a unit with an even significand.
\<close>

definition is_nearest_float64 :: "int \<Rightarrow> int \<Rightarrow> float64 \<Rightarrow> bool" where
  "is_nearest_float64 num den x =
     (case x of (m, e) \<Rightarrow>
      case float_as_ratio x of (a, b) \<Rightarrow>
        let dist = 2 * \<bar>num * b - a * den\<bar>; ulp = den * (if 0 \<le> e then 2 ^ nat e else 1) in
        2 ^ 52 \<le> m \<and> m < 2 ^ 53 \<and> (dist < ulp \<or> (dist = ulp \<and> even m)))"

section \<open>The renderers as the specification words them\<close>

text \<open>
  The negative prompt of the specification: four baseline terms, then the conditional terms
  whose gates hold, in the order exaggeration, timing, physical, ruleOfThree, readability,
  tension.
\<close>

definition spec_baseline_terms :: "string list" where
  "spec_baseline_terms = [''blurry'', ''low quality'', ''distorted'', ''ugly'']"

definition spec_gates :: "((SlapstickParameterSet \<Rightarrow> bool) \<times> string) list" where
  "spec_gates =
     [(\<lambda>ps. 6 \<le> exaggeration ps, ''realistic proportions, natural colors, subtle''),
      (\<lambda>ps. 6 \<le> timing ps, ''static composition, no motion, no rhythm''),
      (\<lambda>ps. 6 \<le> physical ps, ''realistic physics, rigid materials, no distortion''),
      (\<lambda>ps. 6 \<le> ruleOfThree ps, ''no pattern, no rhythm, random composition''),
      (\<lambda>ps. 8 \<le> readability ps, ''cluttered, confusing, unclear silhouette''),
      (\<lambda>ps. 6 \<le> tension ps, ''peaceful, calm, balanced, serene'')]"

definition spec_conditional_terms :: "SlapstickParameterSet \<Rightarrow> string list" where
  "spec_conditional_terms ps = map snd (filter (\<lambda>(gate, term). gate ps) spec_gates)"

text \<open>
  The enhancement phrases of the specification: the four buckets, and for a table and a
  value the phrases of all buckets that contain the value.
\<close>

definition spec_buckets :: "(int \<times> int) list" where
  "spec_buckets = [(9, 10), (6, 8), (3, 5), (0, 2)]"

definition spec_fragments :: "templates \<Rightarrow> int \<Rightarrow> string list" where
  "spec_fragments table v = map snd (filter (\<lambda>((lo, hi), text). lo \<le> v \<and> v \<le> hi) table)"

section \<open>Lemmas\<close>

subsection \<open>The invariant of the resolver loops\<close>

lemma update_present_keys:
  "map_of params k = Some v \<Longrightarrow> map fst (AList.update k w params) = map fst params"
proof -
  assume "map_of params k = Some v"
  then have "(k, v) \<in> set params" by (rule map_of_SomeD)
  then have "k \<in> set (map fst params)" by force
  then show ?thesis by (simp add: update_keys)
qed

lemma update_in_bounds:
  "in_bounds params \<Longrightarrow> 0 \<le> w \<Longrightarrow> w \<le> 10 \<Longrightarrow> in_bounds (AList.update k w params)"
  unfolding in_bounds_def
  by (induction params) auto

lemma update_well_formed:
  "well_formed params \<Longrightarrow> map_of params k = Some v \<Longrightarrow> 0 \<le> w \<Longrightarrow> w \<le> 10
     \<Longrightarrow> well_formed (AList.update k w params)"
  by (simp add: well_formed_def update_present_keys update_in_bounds)

lemma apply_modifiers_well_formed:
  "well_formed params \<Longrightarrow> well_formed (apply_modifiers modifiers params)"
proof (induction modifiers arbitrary: params)
  case Nil
  then show ?case by simp
next
  case (Cons m ms)
  obtain name delta where m: "m = (name, delta)" by (cases m)
  show ?case
  proof (cases "map_of params name")
    case None
    with Cons m show ?thesis by simp
  next
    case (Some v)
    have "well_formed (AList.update name (max 0 (min 10 (v + delta))) params)"
      using Cons.prems Some by (rule update_well_formed) simp_all
    with Cons.IH m Some show ?thesis by simp
  qed
qed

lemma boost_target_name:
  "\<exists>t. map_of VISUAL_PRIORITY_BOOSTS p = Some t \<and> t \<in> set parameter_names \<and> t \<noteq> []"
  by (cases p) (simp_all add: VISUAL_PRIORITY_BOOSTS_def parameter_names_def)

lemma lookup_in_bounds:
  "in_bounds params \<Longrightarrow> map_of params k = Some v \<Longrightarrow> 0 \<le> v \<and> v \<le> 10"
  unfolding in_bounds_def by (metis image_eqI map_of_SomeD snd_conv)

lemma well_formed_lookup:
  "well_formed params \<Longrightarrow> t \<in> set parameter_names \<Longrightarrow> \<exists>v. map_of params t = Some v \<and> 0 \<le> v \<and> v \<le> 10"
proof -
  assume wf: "well_formed params" and t: "t \<in> set parameter_names"
  then have "t \<in> fst ` set params" by (simp add: well_formed_def flip: set_map)
  then obtain v where v: "map_of params t = Some v"
    by (metis domD dom_map_of_conv_image_fst)
  with wf lookup_in_bounds show ?thesis by (auto simp: well_formed_def)
qed

lemma apply_boosts_well_formed:
  "well_formed params \<Longrightarrow> well_formed (apply_boosts priorities params)"
proof (induction priorities arbitrary: params)
  case Nil
  then show ?case by simp
next
  case (Cons p ps)
  obtain t where t: "map_of VISUAL_PRIORITY_BOOSTS p = Some t" "t \<in> set parameter_names" "t \<noteq> []"
    using boost_target_name by blast
  obtain v where v: "map_of params t = Some v" "0 \<le> v" "v \<le> 10"
    using well_formed_lookup [OF Cons.prems t(2)] by blast
  have "well_formed (AList.update t (min 10 (v + 2)) params)"
    using Cons.prems v(1) by (rule update_well_formed) (use v in simp_all)
  with Cons.IH t v show ?case by simp
qed

lemma apply_boosts_append:
  "apply_boosts (xs @ ys) params = apply_boosts ys (apply_boosts xs params)"
  by (induction xs arbitrary: params) simp_all

lemma final_clamp_well_formed:
  "well_formed params \<Longrightarrow> final_clamp params = params"
proof -
  assume "well_formed params"
  then have "\<forall>x \<in> set params. 0 \<le> snd x \<and> snd x \<le> 10"
    by (simp add: well_formed_def in_bounds_def)
  then have "map (\<lambda>(key, v). (key, max 0 (min 10 (py_round_int v)))) params = map (\<lambda>x. x) params"
    by (intro map_cong refl) (auto simp: py_round_int_def)
  then show ?thesis by (simp add: final_clamp_def)
qed

subsection \<open>The scaling table\<close>

lemma multipliers_table:
  "INTENSITY_MULTIPLIERS =
     [(SUBTLE, (5404319552844595, - 54)), (MODERATE, (5404319552844595, - 53)),
      (STRONG, (7656119366529843, - 53)), (EXTREME, (4503599627370496, - 52))]"
  by code_simp

text \<open>
  The four multipliers and the twenty-four products of a preset value and a multiplier are
  the correctly rounded binary64 numbers.
\<close>

lemma literals_nearest:
  "list_all (\<lambda>((level, num, den), (level', x)). level = level' \<and> is_nearest_float64 num den x)
     (zip INTENSITY_LITERALS INTENSITY_MULTIPLIERS)"
  by code_simp

lemma products_nearest:
  "list_all (\<lambda>(level, x). list_all (\<lambda>v.
       case float_as_ratio x of (a, b) \<Rightarrow> is_nearest_float64 (v * a) b (int_times_float v x))
       [4, 5, 6, 7, 8, 9]) INTENSITY_MULTIPLIERS"
  by code_simp

lemma scene_preset:
  "dict_getitem SubjectType_value SUBJECT_TYPE_PRESETS SCENE =
     Inr \<lparr>exaggeration = 6, timing = 7, physical = 7, ruleOfThree = 6, readability = 6, tension = 7\<rparr>"
  by (simp add: dict_getitem_def SUBJECT_TYPE_PRESETS_def)

lemma moderate_multiplier:
  "dict_getitem IntensityLevel_value INTENSITY_MULTIPLIERS MODERATE = Inr (5404319552844595, - 53)"
  by (simp add: dict_getitem_def multipliers_table)

lemma roundings_subtle:
  "map (\<lambda>v. roundings v (5404319552844595, - 54) 3 10) [4, 5, 6, 7, 8, 9] =
     map (\<lambda>r. [r, r, r, r]) [1, 2, 2, 2, 2, 3]"
  by code_simp

lemma roundings_moderate:
  "map (\<lambda>v. roundings v (5404319552844595, - 53) 6 10) [4, 5, 6, 7, 8, 9] =
     map (\<lambda>r. [r, r, r, r]) [2, 3, 4, 4, 5, 5]"
  by code_simp

lemma roundings_strong:
  "map (\<lambda>v. roundings v (7656119366529843, - 53) 85 100) [4, 5, 6, 7, 8, 9] =
     map (\<lambda>r. [r, r, r, r]) [3, 4, 5, 6, 7, 8]"
  by code_simp

lemma roundings_extreme:
  "map (\<lambda>v. roundings v (4503599627370496, - 52) 10 10) [4, 5, 6, 7, 8, 9] =
     map (\<lambda>r. [r, r, r, r]) [4, 5, 6, 7, 8, 9]"
  by code_simp

lemma roundings_agree:
  assumes "v \<in> {4, 5, 6, 7, 8, 9}"
  shows "\<exists>r. 0 \<le> r \<and> r \<le> 10 \<and>
           roundings v (dict_get INTENSITY_MULTIPLIERS i d)
             (fst (dict_get INTENSITY_LITERALS i dl)) (snd (dict_get INTENSITY_LITERALS i dl))
           = [r, r, r, r]"
proof (cases i)
  case SUBTLE
  then show ?thesis
    using assms roundings_subtle
    by (auto simp: dict_get_def multipliers_table INTENSITY_LITERALS_def)
next
  case MODERATE
  then show ?thesis
    using assms roundings_moderate
    by (auto simp: dict_get_def multipliers_table INTENSITY_LITERALS_def)
next
  case STRONG
  then show ?thesis
    using assms roundings_strong
    by (auto simp: dict_get_def multipliers_table INTENSITY_LITERALS_def)
next
  case EXTREME
  then show ?thesis
    using assms roundings_extreme
    by (auto simp: dict_get_def multipliers_table INTENSITY_LITERALS_def)
qed

lemma preset_values:
  "set (map snd (to_dict (dict_get SUBJECT_TYPE_PRESETS s d))) \<subseteq> {4, 5, 6, 7, 8, 9}"
  by (cases s) (simp_all add: dict_get_def SUBJECT_TYPE_PRESETS_def to_dict_def)

subsection \<open>The result of the resolver\<close>

lemma scaled_value_bounds:
  assumes "v \<in> {4, 5, 6, 7, 8, 9}"
  shows "0 \<le> py_round (int_times_float v (dict_get INTENSITY_MULTIPLIERS i d))
       \<and> py_round (int_times_float v (dict_get INTENSITY_MULTIPLIERS i d)) \<le> 10"
  using roundings_agree [OF assms, of i d "(1, 1)"] by (auto simp: roundings_def)

lemma scaled_params_well_formed:
  "well_formed (scaled_params (dict_get SUBJECT_TYPE_PRESETS s d) (dict_get INTENSITY_MULTIPLIERS i d'))"
proof -
  let ?sp = "dict_get SUBJECT_TYPE_PRESETS s d"
  have v: "exaggeration ?sp \<in> {4, 5, 6, 7, 8, 9}" "timing ?sp \<in> {4, 5, 6, 7, 8, 9}"
    "physical ?sp \<in> {4, 5, 6, 7, 8, 9}" "ruleOfThree ?sp \<in> {4, 5, 6, 7, 8, 9}"
    "readability ?sp \<in> {4, 5, 6, 7, 8, 9}" "tension ?sp \<in> {4, 5, 6, 7, 8, 9}"
    using preset_values [of s d] by (simp_all add: to_dict_def)
  show ?thesis
    unfolding well_formed_def in_bounds_def scaled_params_def
    using v [THEN scaled_value_bounds, of i d']
    by (simp add: parameter_names_def)
qed

lemma resolved_params_well_formed: "well_formed (resolved_params di)"
  unfolding resolved_params_def
  by (intro apply_boosts_well_formed apply_modifiers_well_formed scaled_params_well_formed)

lemma well_formed_shape:
  assumes "well_formed params"
  shows "\<exists>a b c d e f. params = to_dict \<lparr>exaggeration = a, timing = b, physical = c, ruleOfThree = d, readability = e, tension = f\<rparr>
           \<and> validate \<lparr>exaggeration = a, timing = b, physical = c, ruleOfThree = d, readability = e, tension = f\<rparr>"
proof -
  from assms have keys: "map fst params = parameter_names" and b: "in_bounds params"
    by (simp_all add: well_formed_def)
  from keys obtain a b c d e f where
    p: "params = [(''exaggeration'', a), (''timing'', b), (''physical'', c), (''ruleOfThree'', d), (''readability'', e), (''tension'', f)]"
    unfolding parameter_names_def by (auto simp: map_eq_Cons_conv)
  with b show ?thesis
    by (auto simp: in_bounds_def to_dict_def validate_def)
qed

lemma design_intent_to_parameters_unfold:
  "design_intent_to_parameters di =
     (let params = final_clamp (resolved_params di) in
      bind_exn (dict_getitem (\<lambda>k. k) params ''exaggeration'') (\<lambda>v1.
      bind_exn (dict_getitem (\<lambda>k. k) params ''timing'') (\<lambda>v2.
      bind_exn (dict_getitem (\<lambda>k. k) params ''physical'') (\<lambda>v3.
      bind_exn (dict_getitem (\<lambda>k. k) params ''ruleOfThree'') (\<lambda>v4.
      bind_exn (dict_getitem (\<lambda>k. k) params ''readability'') (\<lambda>v5.
      bind_exn (dict_getitem (\<lambda>k. k) params ''tension'') (\<lambda>v6.
      Inr \<lparr>exaggeration = v1, timing = v2, physical = v3, ruleOfThree = v4,
           readability = v5, tension = v6\<rparr>)))))))"
  by (simp add: design_intent_to_parameters_def scene_preset moderate_multiplier
        bind_exn_def resolved_params_def Let_def)

lemma resolver_result:
  "\<exists>ps. design_intent_to_parameters di = Inr ps \<and> to_dict ps = resolved_params di \<and> validate ps"
proof -
  obtain a b c d e f where
    shape: "resolved_params di = to_dict \<lparr>exaggeration = a, timing = b, physical = c, ruleOfThree = d, readability = e, tension = f\<rparr>"
    and v: "validate \<lparr>exaggeration = a, timing = b, physical = c, ruleOfThree = d, readability = e, tension = f\<rparr>"
    using well_formed_shape [OF resolved_params_well_formed] by blast
  have fc: "final_clamp (resolved_params di) = resolved_params di"
    by (rule final_clamp_well_formed [OF resolved_params_well_formed])
  then have fc': "final_clamp [(''exaggeration'', a), (''timing'', b), (''physical'', c),
      (''ruleOfThree'', d), (''readability'', e), (''tension'', f)] =
    [(''exaggeration'', a), (''timing'', b), (''physical'', c),
      (''ruleOfThree'', d), (''readability'', e), (''tension'', f)]"
    by (simp add: shape to_dict_def)
  have "design_intent_to_parameters di =
      Inr \<lparr>exaggeration = a, timing = b, physical = c, ruleOfThree = d, readability = e, tension = f\<rparr>"
    by (simp add: design_intent_to_parameters_unfold fc' shape
          bind_exn_def to_dict_def dict_getitem_def Let_def)
  with shape v show ?thesis by simp
qed

subsection \<open>The tools\<close>

lemma append_component_present:
  "map_of NEGATIVE_PROMPT_COMPONENTS key = Some component \<Longrightarrow>
   append_component gate key negatives = Inr (negatives @ (if gate then [component] else []))"
  by (simp add: append_component_def dict_getitem_def bind_exn_def)

lemma negative_components_total: "\<exists>negatives. negative_components params = Inr negatives"
  unfolding negative_components_def append_component_def dict_getitem_def bind_exn_def
    NEGATIVE_PROMPT_COMPONENTS_def
  by simp

lemma build_negative_prompt_total: "\<exists>negative. build_negative_prompt params = Inr negative"
  using negative_components_total [of params]
  by (auto simp: build_negative_prompt_def bind_exn_def Let_def)

lemma clamped_parameter_set_result:
  "\<exists>ps. clamped_parameter_set a b c d e f = Inr ps \<and> validate ps"
  by (simp add: clamped_parameter_set_def py_int_def bind_exn_def validate_def)

lemma enhance_with_parameters_result:
  "\<exists>ps negative. enhance_with_parameters bp a b c d e f =
       Inr (ParametersResponse (to_dict ps) (build_enhanced_prompt bp ps) negative)
     \<and> clamped_parameter_set a b c d e f = Inr ps
     \<and> build_negative_prompt ps = Inr negative \<and> validate ps"
proof -
  obtain ps where ps: "clamped_parameter_set a b c d e f = Inr ps" "validate ps"
    using clamped_parameter_set_result by blast
  obtain negative where n: "build_negative_prompt ps = Inr negative"
    using build_negative_prompt_total by blast
  have "enhance_with_parameters bp a b c d e f =
      Inr (ParametersResponse (to_dict ps) (build_enhanced_prompt bp ps) negative)"
    by (simp add: enhance_with_parameters_def ps n then_flow_def flow_of_def
          except_ValueError_TypeError_def Let_def)
  with ps n show ?thesis by blast
qed

lemma describe_parameters_result:
  "\<exists>ps. describe_parameters a b c d e f =
       Inr (DescriptionResponse (parameters_to_enhancement_description ps) (to_dict ps))
     \<and> clamped_parameter_set a b c d e f = Inr ps \<and> validate ps"
proof -
  obtain ps where ps: "clamped_parameter_set a b c d e f = Inr ps" "validate ps"
    using clamped_parameter_set_result by blast
  have "describe_parameters a b c d e f =
      Inr (DescriptionResponse (parameters_to_enhancement_description ps) (to_dict ps))"
    by (simp add: describe_parameters_def ps then_flow_def flow_of_def
          except_ValueError_TypeError_def Let_def)
  with ps show ?thesis by blast
qed

lemma convert_priorities_returned:
  "convert_priorities strs acc = Returned r \<Longrightarrow>
     \<exists>s. r = ErrorResponse (''Invalid visual priority: '' @ s)"
  by (induction strs arbitrary: acc) (auto split: sum.splits exn.splits)

lemma convert_priorities_not_raised:
  "convert_priorities strs acc \<noteq> Raised e"
  by (induction strs arbitrary: acc)
     (auto simp: enum_getitem_def dict_getitem_def split: sum.splits exn.splits option.splits)

lemma enhance_with_intent_cases:
  "(\<exists>k. enhance_with_intent bp st et vp it = Inl (KeyError k))
   \<or> (\<exists>s. enhance_with_intent bp st et vp it =
            Inr (ErrorResponse (''Invalid visual priority: '' @ s)))
   \<or> (\<exists>m. enhance_with_intent bp st et vp it = Inl (AttributeError m))"
proof (cases "enum_getitem SubjectType_members (upper st)")
  case (Inl e)
  then show ?thesis
    by (auto simp: enhance_with_intent_def enhance_with_intent_try_def then_flow_def flow_of_def
          enum_getitem_def dict_getitem_def split: option.splits)
next
  case subject: (Inr subject)
  show ?thesis
  proof (cases "enum_getitem EmotionalTone_members (upper et)")
    case (Inl e)
    with subject show ?thesis
      by (auto simp: enhance_with_intent_def enhance_with_intent_try_def then_flow_def
            flow_of_def enum_getitem_def dict_getitem_def split: option.splits)
  next
    case emotion: (Inr emotion)
    show ?thesis
    proof (cases "enum_getitem IntensityLevel_members (upper it)")
      case (Inl e)
      with subject emotion show ?thesis
        by (auto simp: enhance_with_intent_def enhance_with_intent_try_def then_flow_def
              flow_of_def enum_getitem_def dict_getitem_def split: option.splits)
    next
      case level: (Inr level)
      show ?thesis
      proof (cases "convert_priorities vp []")
        case (Raised e)
        then show ?thesis using convert_priorities_not_raised by blast
      next
        case (Returned r)
        then obtain s where "r = ErrorResponse (''Invalid visual priority: '' @ s)"
          using convert_priorities_returned by blast
        with subject emotion level Returned show ?thesis
          by (simp add: enhance_with_intent_def enhance_with_intent_try_def then_flow_def
                flow_of_def)
      next
        case (Normal priorities)
        let ?di = "\<lparr>subject_type = subject, emotional_tone = emotion,
            visual_priorities = priorities, intensity_level = level\<rparr>"
        obtain ps where ps: "design_intent_to_parameters ?di = Inr ps" "validate ps"
          using resolver_result [of ?di] by blast
        obtain negative where n: "build_negative_prompt ps = Inr negative"
          using build_negative_prompt_total by blast
        from subject emotion level Normal ps n show ?thesis
          by (simp add: enhance_with_intent_def enhance_with_intent_try_def then_flow_def
                flow_of_def validate_parameters_def str_value_def Let_def)
      qed
    qed
  qed
qed

subsection \<open>Boosts and rounding\<close>

text \<open>
  \<open>enhance_with_intent\<close> never reaches its last \<open>return\<close>: when every argument names a
  member, building the summary raises \<open>AttributeError\<close>.
\<close>

lemma enhance_with_intent_never_succeeds:
  "enhance_with_intent bp st et vp it \<noteq> Inr (IntentResponse used enhanced negative summary)"
  using enhance_with_intent_cases [of bp st et vp it] by auto

lemma enhance_with_intent_scenario_raises:
  "enhance_with_intent ''A corporate office'' ''architecture'' ''tense'' [''suspense'']
     ''extreme'' =
   Inl (AttributeError ([CHR 0x27] @ ''str'' @ [CHR 0x27] @ '' object has no attribute ''
                        @ [CHR 0x27] @ ''value'' @ [CHR 0x27]))"
  by code_simp

lemma resolved_params_append:
  "resolved_params (di\<lparr>visual_priorities := visual_priorities di @ [p]\<rparr>) =
     apply_boosts [p] (resolved_params di)"
  by (simp add: resolved_params_def apply_boosts_append)

lemma boost_step:
  assumes "well_formed params"
  shows "\<exists>t x. map_of VISUAL_PRIORITY_BOOSTS p = Some t \<and> map_of params t = Some x
           \<and> 0 \<le> x \<and> x \<le> 10
           \<and> apply_boosts [p] params = AList.update t (min 10 (x + 2)) params"
proof -
  obtain t where t: "map_of VISUAL_PRIORITY_BOOSTS p = Some t" "t \<in> set parameter_names" "t \<noteq> []"
    using boost_target_name by blast
  obtain x where x: "map_of params t = Some x" "0 \<le> x" "x \<le> 10"
    using well_formed_lookup [OF assms t(2)] by blast
  from t x show ?thesis by simp
qed

lemma div_half_even_nearest:
  assumes "0 < b"
  shows "2 * \<bar>a - div_half_even a b * b\<bar> \<le> b
       \<and> (2 * \<bar>a - div_half_even a b * b\<bar> < b \<or> even (div_half_even a b))"
proof -
  define q r where "q = a div b" and "r = a mod b"
  have a: "a = q * b + r" by (simp add: q_def r_def)
  have r: "0 \<le> r" "r < b" using assms by (simp_all add: r_def)
  have 1: "a - q * b = r" using a by simp
  have 2: "a - (q + 1) * b = r - b" using a by (simp add: algebra_simps)
  show ?thesis
    unfolding div_half_even_def Let_def q_def [symmetric] r_def [symmetric]
    using r by (auto simp: 1 2)
qed

lemma float_as_ratio_pos: "float_as_ratio x = (a, b) \<Longrightarrow> 0 < b"
  by (cases x) (auto simp: float_as_ratio_def split: if_splits)

lemma py_round_nearest:
  "float_as_ratio x = (a, b) \<Longrightarrow>
     2 * \<bar>a - py_round x * b\<bar> \<le> b \<and> (2 * \<bar>a - py_round x * b\<bar> < b \<or> even (py_round x))"
  using div_half_even_nearest [OF float_as_ratio_pos, of x a b a]
  by (simp add: py_round_def)

lemma preset_field_values:
  fixes s d
  defines "sp \<equiv> dict_get SUBJECT_TYPE_PRESETS s d"
  shows "exaggeration sp \<in> {4, 5, 6, 7, 8, 9}" "timing sp \<in> {4, 5, 6, 7, 8, 9}"
    "physical sp \<in> {4, 5, 6, 7, 8, 9}" "ruleOfThree sp \<in> {4, 5, 6, 7, 8, 9}"
    "readability sp \<in> {4, 5, 6, 7, 8, 9}" "tension sp \<in> {4, 5, 6, 7, 8, 9}"
  using preset_values [of s d] by (simp_all add: to_dict_def sp_def)

lemma roundings_equal:
  assumes "v \<in> {4, 5, 6, 7, 8, 9}"
  shows "py_round (int_times_float v (dict_get INTENSITY_MULTIPLIERS i d)) =
           py_round_half_away (int_times_float v (dict_get INTENSITY_MULTIPLIERS i d))"
    and "py_round (int_times_float v (dict_get INTENSITY_MULTIPLIERS i d)) =
           div_half_even (v * fst (dict_get INTENSITY_LITERALS i dl))
             (snd (dict_get INTENSITY_LITERALS i dl))"
    and "py_round (int_times_float v (dict_get INTENSITY_MULTIPLIERS i d)) =
           div_half_away (v * fst (dict_get INTENSITY_LITERALS i dl))
             (snd (dict_get INTENSITY_LITERALS i dl))"
  using roundings_agree [OF assms, of i d dl] by (auto simp: roundings_def)

lemma tie_outside_presets:
  "py_round (int_times_float 10 (dict_get INTENSITY_MULTIPLIERS STRONG undefined)) = 8
   \<and> py_round_half_away (int_times_float 10 (dict_get INTENSITY_MULTIPLIERS STRONG undefined)) = 9"
  by code_simp

subsection \<open>The negative prompt\<close>

lemma component_lookups:
  "map_of NEGATIVE_PROMPT_COMPONENTS ''high_exaggeration'' = Some ''realistic proportions, natural colors, subtle''"
  "map_of NEGATIVE_PROMPT_COMPONENTS ''high_timing'' = Some ''static composition, no motion, no rhythm''"
  "map_of NEGATIVE_PROMPT_COMPONENTS ''high_physical'' = Some ''realistic physics, rigid materials, no distortion''"
  "map_of NEGATIVE_PROMPT_COMPONENTS ''high_rule_of_three'' = Some ''no pattern, no rhythm, random composition''"
  "map_of NEGATIVE_PROMPT_COMPONENTS ''low_readability'' = Some ''cluttered, confusing, unclear silhouette''"
  "map_of NEGATIVE_PROMPT_COMPONENTS ''high_tension'' = Some ''peaceful, calm, balanced, serene''"
  by (simp_all add: NEGATIVE_PROMPT_COMPONENTS_def)

lemma negative_components_eq:
  "negative_components ps = Inr (spec_conditional_terms ps)"
  unfolding negative_components_def component_lookups [THEN append_component_present]
  by (simp add: bind_exn_def spec_conditional_terms_def spec_gates_def)

lemma build_negative_prompt_eq:
  "build_negative_prompt ps =
     Inr (join '', '' (spec_baseline_terms @ spec_conditional_terms ps))"
  by (simp add: build_negative_prompt_def negative_components_eq bind_exn_def Let_def
        spec_baseline_terms_def)

lemma all_terms_distinct:
  "distinct (spec_baseline_terms @ map snd spec_gates)"
  by (simp add: spec_baseline_terms_def spec_gates_def)

text \<open>
  Two of the conditional terms share the phrase "no rhythm", which then occurs twice in the
  joined string.
\<close>

lemma negative_prompt_shared_phrase:
  "build_negative_prompt
     \<lparr>exaggeration = 0, timing = 6, physical = 0, ruleOfThree = 6, readability = 0,
      tension = 0\<rparr> =
   Inr ''blurry, low quality, distorted, ugly, static composition, no motion, no rhythm, no pattern, no rhythm, random composition''"
  by code_simp

lemma conditional_terms_distinct:
  "distinct (spec_baseline_terms @ spec_conditional_terms ps)"
proof -
  have "distinct (map snd spec_gates)" "distinct spec_baseline_terms"
    "set spec_baseline_terms \<inter> set (map snd spec_gates) = {}"
    using all_terms_distinct by auto
  moreover have "set (spec_conditional_terms ps) \<subseteq> set (map snd spec_gates)"
    by (auto simp: spec_conditional_terms_def)
  moreover have "distinct (spec_conditional_terms ps)"
    unfolding spec_conditional_terms_def
    using \<open>distinct (map snd spec_gates)\<close> by (rule distinct_map_filter)
  ultimately show ?thesis by auto
qed

subsection \<open>The enhanced prompt\<close>

lemma sorted_four_buckets:
  "sorted_items_reverse [((9, 10), t9), ((6, 8), t6), ((3, 5), t3), ((0, 2), t0)] =
     [((9, 10), t9), ((6, 8), t6), ((3, 5), t3), ((0, 2), t0)]"
  by (simp add: sorted_items_reverse_def)

lemma four_buckets:
  assumes "table = [((9, 10), t9), ((6, 8), t6), ((3, 5), t3), ((0, 2), t0)]"
    and "t9 \<noteq> []" "t6 \<noteq> []" "t3 \<noteq> []" "t0 \<noteq> []"
    and "0 \<le> v" "v \<le> 10"
  shows "get_template v table \<noteq> []"
    and "spec_fragments table v = [get_template v table]"
proof -
  consider "v \<le> 2" | "3 \<le> v" "v \<le> 5" | "6 \<le> v" "v \<le> 8" | "9 \<le> v" by linarith
  then have "get_template v table \<noteq> [] \<and> spec_fragments table v = [get_template v table]"
    using assms
    by cases (simp_all add: get_template_def sorted_four_buckets spec_fragments_def)
  then show "get_template v table \<noteq> []" "spec_fragments table v = [get_template v table]"
    by simp_all
qed

lemma template_keys:
  "map (map fst)
       [EXAGGERATION_TEMPLATES, TIMING_TEMPLATES, PHYSICAL_TEMPLATES,
        RULE_OF_THREE_TEMPLATES, READABILITY_TEMPLATES, TENSION_TEMPLATES] =
       replicate 6 spec_buckets"
  by (simp add: numeral_eq_Suc spec_buckets_def EXAGGERATION_TEMPLATES_def
        TIMING_TEMPLATES_def PHYSICAL_TEMPLATES_def RULE_OF_THREE_TEMPLATES_def
        READABILITY_TEMPLATES_def TENSION_TEMPLATES_def)

lemmas exaggeration_buckets = four_buckets [OF EXAGGERATION_TEMPLATES_def, simplified]
lemmas timing_buckets = four_buckets [OF TIMING_TEMPLATES_def, simplified]
lemmas physical_buckets = four_buckets [OF PHYSICAL_TEMPLATES_def, simplified]
lemmas rule_of_three_buckets = four_buckets [OF RULE_OF_THREE_TEMPLATES_def, simplified]
lemmas readability_buckets = four_buckets [OF READABILITY_TEMPLATES_def, simplified]
lemmas tension_buckets = four_buckets [OF TENSION_TEMPLATES_def, simplified]

lemma validate_bounds:
  "validate ps \<Longrightarrow>
     0 \<le> exaggeration ps \<and> exaggeration ps \<le> 10 \<and> 0 \<le> timing ps \<and> timing ps \<le> 10
   \<and> 0 \<le> physical ps \<and> physical ps \<le> 10 \<and> 0 \<le> ruleOfThree ps \<and> ruleOfThree ps \<le> 10
   \<and> 0 \<le> readability ps \<and> readability ps \<le> 10 \<and> 0 \<le> tension ps \<and> tension ps \<le> 10"
  by (simp add: validate_def split: if_splits)

lemma enhancement_additions_in_range:
  assumes "validate ps"
  shows "enhancement_additions ps =
     [get_template (exaggeration ps) EXAGGERATION_TEMPLATES,
      get_template (timing ps) TIMING_TEMPLATES,
      get_template (physical ps) PHYSICAL_TEMPLATES,
      get_template (ruleOfThree ps) RULE_OF_THREE_TEMPLATES,
      get_template (readability ps) READABILITY_TEMPLATES,
      get_template (tension ps) TENSION_TEMPLATES]"
  using validate_bounds [OF assms]
  by (simp add: enhancement_additions_def append_if_nonempty_def Let_def
        exaggeration_buckets(1) timing_buckets(1) physical_buckets(1)
        rule_of_three_buckets(1) readability_buckets(1) tension_buckets(1))

lemma default_parameters_prompt:
  "build_enhanced_prompt ''A cat''
       \<lparr>exaggeration = 5, timing = 5, physical = 5, ruleOfThree = 5, readability = 5,
        tension = 5\<rparr> =
     ''A cat, subtle scale variations and slightly heightened color saturation, gentle repetition of visual elements creating compositional rhythm, subtle material flexibility, slight impossibilities in physics, subtle hints of grouping in threes, occasional triplet arrangement, subtle graphic emphasis with readable forms, subtle underlying tension and unease''"
  by code_simp

subsection \<open>The resolver on the interpreter state\<close>

lemma initial_objects_length: "length initial_objects = 20"
  by (simp add: initial_objects_def SUBJECT_TYPE_PRESETS_def EMOTIONAL_TONE_MODIFIERS_def)

lemma initial_attrs:
  "attr_SUBJECT_TYPE_PRESETS initial_state = 16"
  "attr_INTENSITY_MULTIPLIERS initial_state = 17"
  "attr_EMOTIONAL_TONE_MODIFIERS initial_state = 18"
  "attr_VISUAL_PRIORITY_BOOSTS initial_state = 19"
  "next_addr initial_state = 20"
  by (simp_all add: initial_state_def initial_objects_length)

lemma initial_heap:
  "heap initial_state a = (if a < 20 then Some (initial_objects ! a) else None)"
  by (simp add: initial_state_def initial_objects_length)

lemma initial_tables:
  "heap initial_state 16 =
     Some (PresetDictObj (zip (map fst SUBJECT_TYPE_PRESETS) [0, 1, 2, 3, 4, 5, 6]))"
  "heap initial_state 17 = Some (MultiplierDictObj INTENSITY_MULTIPLIERS)"
  "heap initial_state 18 =
     Some (ModifierDictObj
             (zip (map fst EMOTIONAL_TONE_MODIFIERS) [7, 8, 9, 10, 11, 12, 13, 14, 15]))"
  "heap initial_state 19 = Some (BoostDictObj VISUAL_PRIORITY_BOOSTS)"
  by (simp_all add: initial_heap initial_objects_def SUBJECT_TYPE_PRESETS_def
        EMOTIONAL_TONE_MODIFIERS_def)

lemma preset_ref:
  "dict_get (zip (map fst SUBJECT_TYPE_PRESETS) [0, 1, 2, 3, 4, 5, 6]) s 6 < (20::nat)
   \<and> heap initial_state (dict_get (zip (map fst SUBJECT_TYPE_PRESETS) [0, 1, 2, 3, 4, 5, 6]) s 6) =
         Some (ParameterSetObj
                 (dict_get SUBJECT_TYPE_PRESETS s
                    \<lparr>exaggeration = 6, timing = 7, physical = 7, ruleOfThree = 6,
                     readability = 6, tension = 7\<rparr>))"
  by (cases s)
     (simp_all add: initial_heap initial_objects_def dict_get_def SUBJECT_TYPE_PRESETS_def
        EMOTIONAL_TONE_MODIFIERS_def)

lemma scene_ref:
  "dict_getitem SubjectType_value (zip (map fst SUBJECT_TYPE_PRESETS) [0, 1, 2, 3, 4, 5, 6])
     SCENE = Inr (6::nat)"
  by (simp add: dict_getitem_def SUBJECT_TYPE_PRESETS_def)

lemma modifier_ref:
  "dict_get (zip (map fst EMOTIONAL_TONE_MODIFIERS) [7, 8, 9, 10, 11, 12, 13, 14, 15]) t e
     < (20::nat)
   \<and> heap initial_state
       (dict_get (zip (map fst EMOTIONAL_TONE_MODIFIERS) [7, 8, 9, 10, 11, 12, 13, 14, 15]) t e) =
         Some (StrIntDictObj (dict_get EMOTIONAL_TONE_MODIFIERS t []))"
  by (cases t)
     (simp_all add: initial_heap initial_objects_def dict_get_def SUBJECT_TYPE_PRESETS_def
        EMOTIONAL_TONE_MODIFIERS_def)

lemma intact_heap:
  "module_intact s \<Longrightarrow> a < 20 \<Longrightarrow> heap s a = heap initial_state a"
  by (simp add: module_intact_def initial_attrs list_all_iff)

lemma intact_attrs:
  assumes "module_intact s"
  shows "attr_SUBJECT_TYPE_PRESETS s = 16" "attr_INTENSITY_MULTIPLIERS s = 17"
    "attr_EMOTIONAL_TONE_MODIFIERS s = 18" "attr_VISUAL_PRIORITY_BOOSTS s = 19"
    "20 \<le> next_addr s"
  using assms by (simp_all add: module_intact_def initial_attrs)

lemma heap_put_obj [simp]: "heap (put_obj a ob s) = (heap s)(a \<mapsto> ob)"
  by (simp add: put_obj_def)

lemma fields_put_obj [simp]:
  "next_addr (put_obj a ob s) = next_addr s"
  "attr_SUBJECT_TYPE_PRESETS (put_obj a ob s) = attr_SUBJECT_TYPE_PRESETS s"
  "attr_INTENSITY_MULTIPLIERS (put_obj a ob s) = attr_INTENSITY_MULTIPLIERS s"
  "attr_EMOTIONAL_TONE_MODIFIERS (put_obj a ob s) = attr_EMOTIONAL_TONE_MODIFIERS s"
  "attr_VISUAL_PRIORITY_BOOSTS (put_obj a ob s) = attr_VISUAL_PRIORITY_BOOSTS s"
  by (simp_all add: put_obj_def)

lemma put_obj_twice [simp]: "put_obj a x (put_obj a y s) = put_obj a x s"
  by (cases s) (simp add: put_obj_def)

lemma put_obj_same: "heap s a = Some x \<Longrightarrow> put_obj a x s = s"
  by (cases s) (auto simp: put_obj_def)

lemma heap_allocated [simp]: "heap (allocated ob s) = (heap s)(next_addr s \<mapsto> ob)"
  by (simp add: allocated_def)

lemma fields_allocated [simp]:
  "next_addr (allocated ob s) = Suc (next_addr s)"
  "attr_SUBJECT_TYPE_PRESETS (allocated ob s) = attr_SUBJECT_TYPE_PRESETS s"
  "attr_INTENSITY_MULTIPLIERS (allocated ob s) = attr_INTENSITY_MULTIPLIERS s"
  "attr_EMOTIONAL_TONE_MODIFIERS (allocated ob s) = attr_EMOTIONAL_TONE_MODIFIERS s"
  "attr_VISUAL_PRIORITY_BOOSTS (allocated ob s) = attr_VISUAL_PRIORITY_BOOSTS s"
  by (simp_all add: allocated_def)

lemma apply_modifiers_Cons:
  "apply_modifiers (x # xs) params =
     apply_modifiers xs
       (case map_of params (fst x) of None \<Rightarrow> params
        | Some v \<Rightarrow> AList.update (fst x) (max 0 (min 10 (v + snd x))) params)"
  by (cases x; cases "map_of params (fst x)"; simp)

lemma modifiers_loop_run:
  assumes "heap s mref = Some (StrIntDictObj mods)"
    and "heap s pref = Some (StrIntDictObj params)"
    and "mref \<noteq> pref"
    and "\<forall>i \<in> set idx. i < length mods"
  shows "modifiers_loop idx mref pref s =
     (Inr (), put_obj pref (StrIntDictObj (apply_modifiers (map ((!) mods) idx) params)) s)"
  using assms
proof (induction idx arbitrary: s params)
  case Nil
  then show ?case by (simp add: put_obj_same)
next
  case (Cons i idx)
  show ?case
  proof (cases "map_of params (fst (mods ! i))")
    case None
    with Cons.prems Cons.IH [of s params] show ?thesis
      by (simp add: load_dict_def apply_modifiers_Cons)
  next
    case (Some v)
    let ?new = "AList.update (fst (mods ! i)) (max 0 (min 10 (v + snd (mods ! i)))) params"
    let ?s3 = "put_obj pref (StrIntDictObj ?new) s"
    have "modifiers_loop idx mref pref ?s3 =
        (Inr (), put_obj pref (StrIntDictObj (apply_modifiers (map ((!) mods) idx) ?new)) ?s3)"
      using Cons.prems by (intro Cons.IH) simp_all
    with Cons.prems Some show ?thesis
      by (simp add: load_dict_def store_def apply_modifiers_Cons)
  qed
qed

lemma boosts_loop_run:
  assumes "heap s (attr_VISUAL_PRIORITY_BOOSTS s) = Some (BoostDictObj VISUAL_PRIORITY_BOOSTS)"
    and "heap s pref = Some (StrIntDictObj params)"
    and "attr_VISUAL_PRIORITY_BOOSTS s \<noteq> pref"
  shows "boosts_loop priorities pref s =
     (Inr (), put_obj pref (StrIntDictObj (apply_boosts priorities params)) s)"
  using assms
proof (induction priorities arbitrary: s params)
  case Nil
  then show ?case by (simp add: put_obj_same)
next
  case (Cons p ps)
  show ?case
  proof (cases "map_of VISUAL_PRIORITY_BOOSTS p")
    case None
    with Cons.prems Cons.IH [of s params] show ?thesis
      by (simp add: load_boosts_def)
  next
    case target: (Some t)
    show ?thesis
    proof (cases "t \<noteq> [] \<and> map_of params t \<noteq> None")
      case False
      with target Cons.prems Cons.IH [of s params] show ?thesis
        by (auto simp: load_boosts_def load_dict_def)
    next
      case True
      then obtain v where v: "map_of params t = Some v" and t: "t \<noteq> []" by auto
      let ?new = "AList.update t (min 10 (v + 2)) params"
      let ?s3 = "put_obj pref (StrIntDictObj ?new) s"
      have "boosts_loop ps pref ?s3 =
          (Inr (), put_obj pref (StrIntDictObj (apply_boosts ps ?new)) ?s3)"
        using Cons.prems by (intro Cons.IH) simp_all
      with Cons.prems target v t show ?thesis
        by (simp add: load_boosts_def load_dict_def store_def)
    qed
  qed
qed

lemma clamp_loop_run:
  assumes "heap s pref = Some (StrIntDictObj params)"
    and "well_formed params"
    and "\<forall>i \<in> set idx. i < length params"
  shows "clamp_loop idx pref s = (Inr (), s)"
  using assms
proof (induction idx)
  case Nil
  then show ?case by simp
next
  case (Cons i idx)
  from Cons.prems have i: "i < length params" by simp
  then have "fst (params ! i) \<in> fst ` set params" by (metis image_eqI nth_mem)
  then obtain v where v: "map_of params (fst (params ! i)) = Some v"
    by (metis domD dom_map_of_conv_image_fst)
  with Cons.prems have b: "0 \<le> v" "v \<le> 10"
    using lookup_in_bounds by (auto simp: well_formed_def)
  have same: "AList.update (fst (params ! i)) (max 0 (min 10 (py_round_int v))) params = params"
    using v b by (simp add: py_round_int_def update_triv)
  have "put_obj pref (StrIntDictObj params) s = s"
    using Cons.prems(1) by (rule put_obj_same)
  with Cons i v same show ?case
    by (simp add: load_dict_def store_def dict_getitem_def)
qed

lemma resolved_lookups:
  assumes "to_dict ps = resolved_params di"
  shows "dict_getitem (\<lambda>k. k) (resolved_params di) ''exaggeration'' = Inr (exaggeration ps)"
    "dict_getitem (\<lambda>k. k) (resolved_params di) ''timing'' = Inr (timing ps)"
    "dict_getitem (\<lambda>k. k) (resolved_params di) ''physical'' = Inr (physical ps)"
    "dict_getitem (\<lambda>k. k) (resolved_params di) ''ruleOfThree'' = Inr (ruleOfThree ps)"
    "dict_getitem (\<lambda>k. k) (resolved_params di) ''readability'' = Inr (readability ps)"
    "dict_getitem (\<lambda>k. k) (resolved_params di) ''tension'' = Inr (tension ps)"
  unfolding assms [symmetric] by (simp_all add: to_dict_def dict_getitem_def)

lemma design_intent_to_parameters_st_run:
  assumes intact: "module_intact s"
    and ps: "design_intent_to_parameters di = Inr ps"
  shows "design_intent_to_parameters_st di s =
     (Inr (Suc (Suc (next_addr s))),
      allocated (ParameterSetObj ps)
        (put_obj (next_addr s) (StrIntDictObj (resolved_params di))
           (allocated (StrIntDictObj [])
              (allocated
                 (StrIntDictObj
                    (scaled_params
                       (dict_get SUBJECT_TYPE_PRESETS (subject_type di)
                          \<lparr>exaggeration = 6, timing = 7, physical = 7, ruleOfThree = 6,
                           readability = 6, tension = 7\<rparr>)
                       (dict_get INTENSITY_MULTIPLIERS (intensity_level di)
                          (5404319552844595, - 53))))
                 s))))"
proof -
  define n where "n = next_addr s"
  define presets0 where
    "presets0 = zip (map fst SUBJECT_TYPE_PRESETS) [0, 1, 2, 3, 4, 5, 6 :: nat]"
  define mods0 where
    "mods0 = zip (map fst EMOTIONAL_TONE_MODIFIERS) [7, 8, 9, 10, 11, 12, 13, 14, 15 :: nat]"
  define sp where "sp = dict_get SUBJECT_TYPE_PRESETS (subject_type di)
      \<lparr>exaggeration = 6, timing = 7, physical = 7, ruleOfThree = 6, readability = 6,
       tension = 7\<rparr>"
  define mult where "mult = dict_get INTENSITY_MULTIPLIERS (intensity_level di)
      (5404319552844595, - 53)"
  define mods where "mods = dict_get EMOTIONAL_TONE_MODIFIERS (emotional_tone di) []"
  define scaled where "scaled = scaled_params sp mult"
  define s1 where "s1 = allocated (StrIntDictObj scaled) s"
  define s2 where "s2 = allocated (StrIntDictObj []) s1"
  define s4 where "s4 = put_obj n (StrIntDictObj (resolved_params di)) s2"
  define a_s where "a_s = dict_get presets0 (subject_type di) 6"
  define a_t where "a_t = dict_get mods0 (emotional_tone di) (Suc n)"
  note attrs = intact_attrs(1-4) [OF intact]
  have n20: "20 \<le> n" using intact_attrs(5) [OF intact] by (simp add: n_def)
  have frame: "heap s a = heap initial_state a" if "a < 20" for a
    using intact that by (rule intact_heap)
  have a_s: "a_s < 20" "heap s a_s = Some (ParameterSetObj sp)"
    using preset_ref [of "subject_type di"] frame [of a_s]
    by (simp_all add: a_s_def presets0_def sp_def)
  have a_t: "a_t < 20" "heap s a_t = Some (StrIntDictObj mods)"
    using modifier_ref [of "emotional_tone di" "Suc n"] frame [of a_t]
    by (simp_all add: a_t_def mods0_def mods_def)
  have R: "resolved_params di = apply_boosts (visual_priorities di) (apply_modifiers mods scaled)"
    by (simp add: resolved_params_def mods_def scaled_def sp_def mult_def)
  obtain ps' where ps': "design_intent_to_parameters di = Inr ps'"
      "to_dict ps' = resolved_params di"
    using resolver_result [of di] by blast
  with ps have td: "to_dict ps = resolved_params di" by simp
  have f1: "load_presets (attr_SUBJECT_TYPE_PRESETS s) s = (Inr presets0, s)"
    using frame [of 16] by (simp add: load_presets_def attrs initial_tables presets0_def)
  have f2: "dict_getitem SubjectType_value presets0 SCENE = Inr 6"
    unfolding presets0_def by (rule scene_ref)
  have f3: "load_multipliers (attr_INTENSITY_MULTIPLIERS s) s = (Inr INTENSITY_MULTIPLIERS, s)"
    using frame [of 17] by (simp add: load_multipliers_def attrs initial_tables)
  have f4: "load_parameter_set a_s s = (Inr sp, s)"
    by (simp add: load_parameter_set_def a_s)
  have f5: "alloc (StrIntDictObj scaled) s = (Inr n, s1)"
    by (simp add: alloc_def n_def s1_def)
  have f6: "load_modifiers (attr_EMOTIONAL_TONE_MODIFIERS s1) s1 = (Inr mods0, s1)"
    using frame [of 18] n20
    by (simp add: load_modifiers_def attrs initial_tables mods0_def s1_def n_def)
  have f7: "alloc (StrIntDictObj []) s1 = (Inr (Suc n), s2)"
    by (simp add: alloc_def n_def s1_def s2_def)
  have h2: "heap s2 a_t = Some (StrIntDictObj mods)" "heap s2 n = Some (StrIntDictObj scaled)"
    "heap s2 19 = Some (BoostDictObj VISUAL_PRIORITY_BOOSTS)"
    "attr_VISUAL_PRIORITY_BOOSTS s2 = 19" "next_addr s2 = Suc (Suc n)"
    using a_t n20 frame [of 19]
    by (simp_all add: s2_def s1_def n_def attrs initial_tables)
  have f8: "load_dict a_t s2 = (Inr mods, s2)"
    by (simp add: load_dict_def h2)
  have f9: "modifiers_loop [0..<length mods] a_t n s2 =
      (Inr (), put_obj n (StrIntDictObj (apply_modifiers mods scaled)) s2)"
    using modifiers_loop_run [of s2 a_t mods n scaled "[0..<length mods]"] h2 a_t(1) n20
    by (simp add: map_nth)
  have f10: "boosts_loop (visual_priorities di) n
        (put_obj n (StrIntDictObj (apply_modifiers mods scaled)) s2) = (Inr (), s4)"
    using boosts_loop_run [of "put_obj n (StrIntDictObj (apply_modifiers mods scaled)) s2"
        n "apply_modifiers mods scaled" "visual_priorities di"] h2 n20
    by (simp add: s4_def R)
  have f11: "load_dict n s4 = (Inr (resolved_params di), s4)"
    by (simp add: load_dict_def s4_def)
  have f12: "clamp_loop [0..<length (resolved_params di)] n s4 = (Inr (), s4)"
    by (rule clamp_loop_run [where params = "resolved_params di"])
       (simp_all add: s4_def resolved_params_well_formed)
  have f14: "alloc (ParameterSetObj ps) s4 = (Inr (Suc (Suc n)), allocated (ParameterSetObj ps) s4)"
    by (simp add: alloc_def s4_def h2)
  have eta: "\<lparr>exaggeration = exaggeration ps, timing = timing ps, physical = physical ps,
      ruleOfThree = ruleOfThree ps, readability = readability ps, tension = tension ps\<rparr> = ps"
    by simp
  have "design_intent_to_parameters_st di s =
      (Inr (Suc (Suc n)), allocated (ParameterSetObj ps) s4)"
    unfolding design_intent_to_parameters_st_def
    by (simp add: bind_st_def lift_exn_def Let_def f1 f2 f3 moderate_multiplier
          a_s_def [symmetric] f4 sp_def [symmetric] mult_def [symmetric]
          scaled_def [symmetric] f5 f6 f7 a_t_def [symmetric] f8 f9 f10 f11 f12
          resolved_lookups [OF td] eta f14)
  then show ?thesis
    by (simp add: n_def s4_def s2_def s1_def scaled_def sp_def mult_def)
qed

lemma module_intact_initial: "module_intact initial_state"
  by (simp add: module_intact_def list_all_iff)

lemma resolver_st_result:
  assumes "module_intact s"
  shows "\<exists>ps. design_intent_to_parameters di = Inr ps
          \<and> returned_parameters di s = Inr ps
          \<and> module_intact (snd (design_intent_to_parameters_st di s))"
proof -
  obtain ps where ps: "design_intent_to_parameters di = Inr ps"
    using resolver_result [of di] by blast
  note run = design_intent_to_parameters_st_run [OF assms ps]
  note n20 = intact_attrs(5) [OF assms]
  have "returned_parameters di s = Inr ps"
    by (simp add: returned_parameters_def bind_st_def run load_parameter_set_def)
  moreover have "module_intact (snd (design_intent_to_parameters_st di s))"
    using assms n20
    by (simp add: run module_intact_def initial_attrs list_all_iff)
  ultimately show ?thesis using ps by blast
qed

text \<open>
  The hypothesis on the state is needed: in a state where the preset object of
  architecture has been overwritten, the call returns another vector.
\<close>

lemma mutated_preset_changes_result:
  "returned_parameters
     \<lparr>subject_type = ARCHITECTURE, emotional_tone = TENSE, visual_priorities = [SUSPENSE],
      intensity_level = EXTREME\<rparr>
     (put_obj 0
        (ParameterSetObj
           \<lparr>exaggeration = 0, timing = 0, physical = 0, ruleOfThree = 0, readability = 0,
            tension = 0\<rparr>)
        initial_state) =
   Inr \<lparr>exaggeration = 0, timing = 0, physical = 0, ruleOfThree = 0, readability = 1,
        tension = 5\<rparr>"
  by code_simp

section \<open>Bounds of the parameter vector\<close>

text \<open>
  Claim C1. Every field of the parameter vector that a tool produces lies in \<open>[0, 10]\<close>:
  the vector that \<open>design_intent_to_parameters\<close> computes for \<open>enhance_with_intent\<close> (for
  every design intent it returns a vector, and the vector passes \<open>validate\<close>), the vector in
  \<open>parameters_used\<close> of \<open>enhance_with_parameters\<close> and the vector in \<open>parameters\<close> of
  \<open>describe_parameters\<close>, for all integer arguments.
\<close>

theorem C1_parameters_in_bounds:
  "(\<exists>ps. design_intent_to_parameters di = Inr ps \<and> validate ps)
   \<and> (\<exists>ps enhanced negative.
         enhance_with_parameters bp a b c d e f =
           Inr (ParametersResponse (to_dict ps) enhanced negative) \<and> validate ps)
   \<and> (\<exists>ps descriptions.
         describe_parameters a b c d e f = Inr (DescriptionResponse descriptions (to_dict ps))
         \<and> validate ps)"
  using resolver_result [of di] enhance_with_parameters_result [of bp a b c d e f]
    describe_parameters_result [of a b c d e f]
  by blast

section \<open>Strings outside the enumerations\<close>

text \<open>
  Claim C2. A string argument of \<open>enhance_with_intent\<close> that matches no member of its
  enumeration should give an error response. Evaluated on the code: a subject type, an
  emotional tone or an intensity that names no member makes the member lookup raise
  \<open>KeyError\<close>, which the handler for \<open>ValueError\<close> does not catch, so the call ends with the
  exception; a visual priority that names no member is caught by the inner handler and gives
  the error response that names it.
\<close>

theorem C2_invalid_enum_string_raises:
  "enhance_with_intent ''A corporate office'' ''building'' ''tense'' [''suspense''] ''extreme''
     = Inl (KeyError ''BUILDING'')
   \<and> enhance_with_intent ''A corporate office'' ''architecture'' ''angry'' [''suspense'']
       ''extreme'' = Inl (KeyError ''ANGRY'')
   \<and> enhance_with_intent ''A corporate office'' ''architecture'' ''tense'' [''suspense'']
       ''maximal'' = Inl (KeyError ''MAXIMAL'')
   \<and> enhance_with_intent ''A corporate office'' ''architecture'' ''tense'' [''tempo'']
       ''extreme'' = Inr (ErrorResponse ''Invalid visual priority: tempo'')"
  by code_simp

section \<open>The scenario of the specification\<close>

text \<open>
  Claim C3. The intent resolver, on the design intent with subject type architecture,
  emotional tone tense, the one visual priority suspense and intensity extreme, returns the
  parameter set exaggeration 7, timing 4, physical 5, ruleOfThree 7, readability 7,
  tension 10. The stages are: the architecture preset (7, 4, 6, 7, 6, 8); the scaling by the
  multiplier of extreme, which leaves every value as it is; the deltas of tense, which take
  tension to 10 (clamped from 11), physical to 5 and readability to 7; the boost of suspense,
  which leaves tension at 10.
\<close>

theorem C3_architecture_tense_suspense_extreme:
  "dict_get SUBJECT_TYPE_PRESETS ARCHITECTURE undefined =
     \<lparr>exaggeration = 7, timing = 4, physical = 6, ruleOfThree = 7, readability = 6,
      tension = 8\<rparr>
   \<and> scaled_params
       \<lparr>exaggeration = 7, timing = 4, physical = 6, ruleOfThree = 7, readability = 6,
        tension = 8\<rparr>
       (dict_get INTENSITY_MULTIPLIERS EXTREME undefined) =
     [(''exaggeration'', 7), (''timing'', 4), (''physical'', 6), (''ruleOfThree'', 7),
      (''readability'', 6), (''tension'', 8)]
   \<and> apply_modifiers (dict_get EMOTIONAL_TONE_MODIFIERS TENSE [])
       [(''exaggeration'', 7), (''timing'', 4), (''physical'', 6), (''ruleOfThree'', 7),
        (''readability'', 6), (''tension'', 8)] =
     [(''exaggeration'', 7), (''timing'', 4), (''physical'', 5), (''ruleOfThree'', 7),
      (''readability'', 7), (''tension'', 10)]
   \<and> apply_boosts [SUSPENSE]
       [(''exaggeration'', 7), (''timing'', 4), (''physical'', 5), (''ruleOfThree'', 7),
        (''readability'', 7), (''tension'', 10)] =
     [(''exaggeration'', 7), (''timing'', 4), (''physical'', 5), (''ruleOfThree'', 7),
      (''readability'', 7), (''tension'', 10)]
   \<and> design_intent_to_parameters
       \<lparr>subject_type = ARCHITECTURE, emotional_tone = TENSE,
        visual_priorities = [SUSPENSE], intensity_level = EXTREME\<rparr> =
     Inr \<lparr>exaggeration = 7, timing = 4, physical = 5, ruleOfThree = 7, readability = 7,
          tension = 10\<rparr>"
  by code_simp

section \<open>The negative prompt\<close>

text \<open>
  Claim C4. For every parameter vector (in particular every one with all fields in
  \<open>[0, 10]\<close>) the negative prompt is the four baseline terms blurry, low quality, distorted,
  ugly followed by the conditional terms whose gates hold, in the order exaggeration at least
  6, timing at least 6, physical at least 6, ruleOfThree at least 6, readability at least 8,
  tension at least 6, joined by a comma and a space; no term occurs twice; for the all-zero
  vector it is exactly "blurry, low quality, distorted, ugly".
\<close>

theorem C4_negative_prompt:
  "build_negative_prompt ps =
     Inr (join '', '' ([''blurry'', ''low quality'', ''distorted'', ''ugly'']
                       @ spec_conditional_terms ps))
   \<and> distinct ([''blurry'', ''low quality'', ''distorted'', ''ugly'']
                @ spec_conditional_terms ps)
   \<and> build_negative_prompt
       \<lparr>exaggeration = 0, timing = 0, physical = 0, ruleOfThree = 0, readability = 0,
        tension = 0\<rparr> = Inr ''blurry, low quality, distorted, ugly''"
proof -
  have "build_negative_prompt
       \<lparr>exaggeration = 0, timing = 0, physical = 0, ruleOfThree = 0, readability = 0,
        tension = 0\<rparr> = Inr ''blurry, low quality, distorted, ugly''"
    by (simp add: build_negative_prompt_eq spec_baseline_terms_def spec_conditional_terms_def
          spec_gates_def)
  then show ?thesis
    using build_negative_prompt_eq [of ps] conditional_terms_distinct [of ps]
    by (simp add: spec_baseline_terms_def)
qed

section \<open>The enhanced prompt\<close>

text \<open>
  Claim C5. For every base prompt and every parameter vector with all six fields in
  \<open>[0, 10]\<close>, the enhanced prompt is the base prompt, a comma and a space, and the six phrases
  of exaggeration, timing, physical, ruleOfThree, readability and tension in this order,
  joined by a comma and a space. Each phrase is the one of the only bucket among \<open>[9, 10]\<close>,
  \<open>[6, 8]\<close>, \<open>[3, 5]\<close>, \<open>[0, 2]\<close> that contains the value, and these four buckets are the keys
  of each of the six tables. When no phrase applies, the base prompt is returned as it is.
\<close>

theorem C5_enhanced_prompt:
  "(validate ps \<longrightarrow>
      build_enhanced_prompt base_prompt ps =
        base_prompt @ '', '' @ join '', ''
          [get_template (exaggeration ps) EXAGGERATION_TEMPLATES,
           get_template (timing ps) TIMING_TEMPLATES,
           get_template (physical ps) PHYSICAL_TEMPLATES,
           get_template (ruleOfThree ps) RULE_OF_THREE_TEMPLATES,
           get_template (readability ps) READABILITY_TEMPLATES,
           get_template (tension ps) TENSION_TEMPLATES]
    \<and> spec_fragments EXAGGERATION_TEMPLATES (exaggeration ps) =
        [get_template (exaggeration ps) EXAGGERATION_TEMPLATES]
    \<and> spec_fragments TIMING_TEMPLATES (timing ps) =
        [get_template (timing ps) TIMING_TEMPLATES]
    \<and> spec_fragments PHYSICAL_TEMPLATES (physical ps) =
        [get_template (physical ps) PHYSICAL_TEMPLATES]
    \<and> spec_fragments RULE_OF_THREE_TEMPLATES (ruleOfThree ps) =
        [get_template (ruleOfThree ps) RULE_OF_THREE_TEMPLATES]
    \<and> spec_fragments READABILITY_TEMPLATES (readability ps) =
        [get_template (readability ps) READABILITY_TEMPLATES]
    \<and> spec_fragments TENSION_TEMPLATES (tension ps) =
        [get_template (tension ps) TENSION_TEMPLATES])
   \<and> map (map fst)
       [EXAGGERATION_TEMPLATES, TIMING_TEMPLATES, PHYSICAL_TEMPLATES,
        RULE_OF_THREE_TEMPLATES, READABILITY_TEMPLATES, TENSION_TEMPLATES] =
       replicate 6 spec_buckets
   \<and> (enhancement_additions ps' = [] \<longrightarrow> build_enhanced_prompt base_prompt ps' = base_prompt)"
proof -
  have 1: "build_enhanced_prompt base_prompt ps =
        base_prompt @ '', '' @ join '', ''
          [get_template (exaggeration ps) EXAGGERATION_TEMPLATES,
           get_template (timing ps) TIMING_TEMPLATES,
           get_template (physical ps) PHYSICAL_TEMPLATES,
           get_template (ruleOfThree ps) RULE_OF_THREE_TEMPLATES,
           get_template (readability ps) READABILITY_TEMPLATES,
           get_template (tension ps) TENSION_TEMPLATES]" if "validate ps"
    using enhancement_additions_in_range [OF that]
    by (simp add: build_enhanced_prompt_def)
  have 2: "spec_fragments EXAGGERATION_TEMPLATES (exaggeration ps) =
        [get_template (exaggeration ps) EXAGGERATION_TEMPLATES]
    \<and> spec_fragments TIMING_TEMPLATES (timing ps) =
        [get_template (timing ps) TIMING_TEMPLATES]
    \<and> spec_fragments PHYSICAL_TEMPLATES (physical ps) =
        [get_template (physical ps) PHYSICAL_TEMPLATES]
    \<and> spec_fragments RULE_OF_THREE_TEMPLATES (ruleOfThree ps) =
        [get_template (ruleOfThree ps) RULE_OF_THREE_TEMPLATES]
    \<and> spec_fragments READABILITY_TEMPLATES (readability ps) =
        [get_template (readability ps) READABILITY_TEMPLATES]
    \<and> spec_fragments TENSION_TEMPLATES (tension ps) =
        [get_template (tension ps) TENSION_TEMPLATES]" if "validate ps"
    using validate_bounds [OF that]
    by (simp add: exaggeration_buckets(2) timing_buckets(2) physical_buckets(2)
          rule_of_three_buckets(2) readability_buckets(2) tension_buckets(2))
  have 3: "map (map fst)
       [EXAGGERATION_TEMPLATES, TIMING_TEMPLATES, PHYSICAL_TEMPLATES,
        RULE_OF_THREE_TEMPLATES, READABILITY_TEMPLATES, TENSION_TEMPLATES] =
       replicate 6 spec_buckets"
    by (rule template_keys)
  have 4: "build_enhanced_prompt base_prompt ps' = base_prompt"
    if "enhancement_additions ps' = []"
    using that by (simp add: build_enhanced_prompt_def)
  from 1 2 3 4 show ?thesis by blast
qed

theorem C5_enhanced_prompt_witness:
  "validate \<lparr>exaggeration = 5, timing = 5, physical = 5, ruleOfThree = 5, readability = 5,
             tension = 5\<rparr>
   \<and> build_enhanced_prompt ''A cat''
       \<lparr>exaggeration = 5, timing = 5, physical = 5, ruleOfThree = 5, readability = 5,
        tension = 5\<rparr> =
     ''A cat'' @ '', '' @ join '', ''
       [get_template 5 EXAGGERATION_TEMPLATES, get_template 5 TIMING_TEMPLATES,
        get_template 5 PHYSICAL_TEMPLATES, get_template 5 RULE_OF_THREE_TEMPLATES,
        get_template 5 READABILITY_TEMPLATES, get_template 5 TENSION_TEMPLATES]
   \<and> spec_fragments TENSION_TEMPLATES 5 = [get_template 5 TENSION_TEMPLATES]
   \<and> enhancement_additions
       \<lparr>exaggeration = 11, timing = 11, physical = 11, ruleOfThree = 11, readability = 11,
        tension = 11\<rparr> = []
   \<and> build_enhanced_prompt ''A cat''
       \<lparr>exaggeration = 11, timing = 11, physical = 11, ruleOfThree = 11, readability = 11,
        tension = 11\<rparr> = ''A cat''"
proof -
  have h1: "validate \<lparr>exaggeration = 5, timing = 5, physical = 5, ruleOfThree = 5,
      readability = 5, tension = 5\<rparr>"
    by (simp add: validate_def)
  have h2: "enhancement_additions
       \<lparr>exaggeration = 11, timing = 11, physical = 11, ruleOfThree = 11, readability = 11,
        tension = 11\<rparr> = []"
    by code_simp
  show ?thesis
    using h1 h2
      C5_enhanced_prompt [of
        "\<lparr>exaggeration = 5, timing = 5, physical = 5, ruleOfThree = 5, readability = 5,
          tension = 5\<rparr>" "''A cat''"
        "\<lparr>exaggeration = 11, timing = 11, physical = 11, ruleOfThree = 11,
          readability = 11, tension = 11\<rparr>"]
    by simp
qed

section \<open>The readability gate\<close>

text \<open>
  Claim C6. For the vector with readability 10 and every other field 0 the negative prompt
  contains the term of the key \<open>low_readability\<close>, "cluttered, confusing, unclear
  silhouette"; for every vector this term is among the conditional terms exactly when
  readability is at least 8.
\<close>

theorem C6_readability_inversion:
  "build_negative_prompt
     \<lparr>exaggeration = 0, timing = 0, physical = 0, ruleOfThree = 0, readability = 10,
      tension = 0\<rparr> =
     Inr ''blurry, low quality, distorted, ugly, cluttered, confusing, unclear silhouette''
   \<and> dict_getitem (\<lambda>k. k) NEGATIVE_PROMPT_COMPONENTS ''low_readability'' =
       Inr ''cluttered, confusing, unclear silhouette''
   \<and> (\<exists>negatives. negative_components ps = Inr negatives
        \<and> (''cluttered, confusing, unclear silhouette'' \<in> set negatives)
            = (8 \<le> readability ps))"
proof -
  have 1: "build_negative_prompt
     \<lparr>exaggeration = 0, timing = 0, physical = 0, ruleOfThree = 0, readability = 10,
      tension = 0\<rparr> =
     Inr ''blurry, low quality, distorted, ugly, cluttered, confusing, unclear silhouette''"
    by (simp add: build_negative_prompt_eq spec_baseline_terms_def spec_conditional_terms_def
          spec_gates_def)
  have 2: "dict_getitem (\<lambda>k. k) NEGATIVE_PROMPT_COMPONENTS ''low_readability'' =
       Inr ''cluttered, confusing, unclear silhouette''"
    by (simp add: dict_getitem_def component_lookups)
  have 3: "(''cluttered, confusing, unclear silhouette'' \<in> set (spec_conditional_terms ps))
            = (8 \<le> readability ps)"
    by (simp add: spec_conditional_terms_def spec_gates_def)
  from 1 2 3 show ?thesis by (simp add: negative_components_eq)
qed

section \<open>Monotonic boost\<close>

text \<open>
  Claim C7. For every design intent and every visual priority \<open>p\<close>, the resolver returns a
  vector for the intent and for the intent with \<open>p\<close> appended to its priorities, and the
  value of the target parameter of \<open>p\<close> in the second vector is at least its value in the
  first.
\<close>

theorem C7_boost_monotone:
  "\<exists>v w t x y.
      design_intent_to_parameters di = Inr v
    \<and> design_intent_to_parameters (di\<lparr>visual_priorities := visual_priorities di @ [p]\<rparr>) = Inr w
    \<and> map_of VISUAL_PRIORITY_BOOSTS p = Some t
    \<and> map_of (to_dict v) t = Some x
    \<and> map_of (to_dict w) t = Some y
    \<and> x \<le> y"
proof -
  let ?di' = "di\<lparr>visual_priorities := visual_priorities di @ [p]\<rparr>"
  obtain v where v: "design_intent_to_parameters di = Inr v" "to_dict v = resolved_params di"
    using resolver_result [of di] by blast
  obtain w where w: "design_intent_to_parameters ?di' = Inr w" "to_dict w = resolved_params ?di'"
    using resolver_result [of ?di'] by blast
  obtain t x where t: "map_of VISUAL_PRIORITY_BOOSTS p = Some t"
    and x: "map_of (resolved_params di) t = Some x" "0 \<le> x" "x \<le> 10"
    and step: "apply_boosts [p] (resolved_params di) =
                 AList.update t (min 10 (x + 2)) (resolved_params di)"
    using boost_step [OF resolved_params_well_formed, of p di] by blast
  have "resolved_params ?di' = AList.update t (min 10 (x + 2)) (resolved_params di)"
    using step by (simp only: resolved_params_append)
  then have "map_of (to_dict w) t = Some (min 10 (x + 2))"
    by (simp add: w(2) update_conv')
  moreover have "x \<le> min 10 (x + 2)" using x by simp
  ultimately show ?thesis using v w(1) t x(1) by auto
qed

section \<open>Totality and determinism of the resolver\<close>

text \<open>
  Claim C8. The intent resolver is a total, deterministic function of its argument. Stated
  on the interpreter state: in every state in which the objects of the module are intact,
  whatever else the heap holds, a call on a design intent raises nothing and returns a
  parameter set; in any two such states, calls on equal design intents return equal
  parameter sets (the value of \<open>design_intent_to_parameters\<close>); and a call leaves the
  objects of the module intact, so every later call is again made in such a state. The call
  writes only to objects that it has created itself.
\<close>

theorem C8_resolver_total_deterministic:
  assumes "module_intact s1" and "module_intact s2"
  shows "\<exists>ps. returned_parameters di s1 = Inr ps
           \<and> returned_parameters di s2 = Inr ps
           \<and> design_intent_to_parameters di = Inr ps
           \<and> module_intact (snd (design_intent_to_parameters_st di s1))
           \<and> module_intact (snd (design_intent_to_parameters_st di s2))"
  using resolver_st_result [OF assms(1), of di] resolver_st_result [OF assms(2), of di]
  by auto

theorem C8_resolver_total_deterministic_witness:
  "module_intact initial_state
   \<and> module_intact (allocated (StrIntDictObj [(''tension'', 99)]) initial_state)
   \<and> (\<exists>ps. returned_parameters
              \<lparr>subject_type = PORTRAIT, emotional_tone = OMINOUS,
               visual_priorities = [CLARITY, FLOW], intensity_level = STRONG\<rparr>
              initial_state = Inr ps
          \<and> returned_parameters
              \<lparr>subject_type = PORTRAIT, emotional_tone = OMINOUS,
               visual_priorities = [CLARITY, FLOW], intensity_level = STRONG\<rparr>
              (allocated (StrIntDictObj [(''tension'', 99)]) initial_state) = Inr ps)"
proof -
  have h1: "module_intact initial_state"
    by (simp add: module_intact_def list_all_iff)
  have h2: "module_intact (allocated (StrIntDictObj [(''tension'', 99)]) initial_state)"
    by (simp add: module_intact_def list_all_iff initial_attrs)
  show ?thesis
    using h1 h2
      C8_resolver_total_deterministic [OF h1 h2,
        of "\<lparr>subject_type = PORTRAIT, emotional_tone = OMINOUS,
             visual_priorities = [CLARITY, FLOW], intensity_level = STRONG\<rparr>"]
    by blast
qed

section \<open>The bound checks after clamping\<close>

text \<open>
  Claim C9. The error branches of the bound checks are unreachable. For all integer
  arguments \<open>enhance_with_parameters\<close> never returns the error "Parameters must be between 0
  and 10", because the clamped parameter set always passes \<open>validate\<close>. For all arguments
  \<open>enhance_with_intent\<close> never returns the error "Invalid parameters generated", because the
  output of the resolver passes \<open>validate_parameters\<close> for every design intent.
\<close>

theorem C9_bound_checks_unreachable:
  "enhance_with_parameters bp a b c d e f \<noteq>
     Inr (ErrorResponse ''Parameters must be between 0 and 10'')
   \<and> (\<exists>ps. clamped_parameter_set a b c d e f = Inr ps \<and> validate ps)
   \<and> enhance_with_intent bp st et vp it \<noteq> Inr (ErrorResponse ''Invalid parameters generated'')
   \<and> (\<exists>ps. design_intent_to_parameters di = Inr ps \<and> validate_parameters ps)"
proof -
  have 1: "enhance_with_parameters bp a b c d e f \<noteq>
     Inr (ErrorResponse ''Parameters must be between 0 and 10'')"
    using enhance_with_parameters_result [of bp a b c d e f] by auto
  have 3: "enhance_with_intent bp st et vp it \<noteq> Inr (ErrorResponse ''Invalid parameters generated'')"
    using enhance_with_intent_cases [of bp st et vp it] by auto
  show ?thesis
    using 1 3 clamped_parameter_set_result [of a b c d e f] resolver_result [of di]
    by (simp add: validate_parameters_def) blast
qed

section \<open>Rounding in the scaling step\<close>

text \<open>
  Claim C10. In the scaling step every field of the working vector is Python's \<open>round\<close> of
  the float product of the preset value and the multiplier; \<open>round\<close> returns a nearest
  integer, and the even one at a tie. For every subject type and every intensity level of
  the shipped tables, every field agrees with rounding the float product half away from
  zero, and with rounding the exact decimal product (by 0.3, 0.6, 0.85 or 1.0) half to even
  and half away from zero: the tie rule changes no output.
\<close>

theorem C10_scaling_rounding:
  fixes s :: SubjectType and i :: IntensityLevel
    and d :: SlapstickParameterSet and d' :: float64 and dl :: "int \<times> int"
  defines "sp \<equiv> dict_get SUBJECT_TYPE_PRESETS s d"
      and "m \<equiv> dict_get INTENSITY_MULTIPLIERS i d'"
      and "num \<equiv> fst (dict_get INTENSITY_LITERALS i dl)"
      and "den \<equiv> snd (dict_get INTENSITY_LITERALS i dl)"
  shows "map snd (scaled_params sp' m') =
           map (\<lambda>v. py_round (int_times_float v m')) (map snd (to_dict sp'))
       \<and> 2 * \<bar>fst (float_as_ratio x) - py_round x * snd (float_as_ratio x)\<bar>
           \<le> snd (float_as_ratio x)
       \<and> (2 * \<bar>fst (float_as_ratio x) - py_round x * snd (float_as_ratio x)\<bar>
            < snd (float_as_ratio x) \<or> even (py_round x))
       \<and> map snd (scaled_params sp m) =
           map (\<lambda>v. py_round_half_away (int_times_float v m)) (map snd (to_dict sp))
       \<and> map snd (scaled_params sp m) =
           map (\<lambda>v. div_half_even (v * num) den) (map snd (to_dict sp))
       \<and> map snd (scaled_params sp m) =
           map (\<lambda>v. div_half_away (v * num) den) (map snd (to_dict sp))"
proof -
  have a: "map snd (scaled_params sp' m') =
           map (\<lambda>v. py_round (int_times_float v m')) (map snd (to_dict sp'))"
    by (simp add: scaled_params_def to_dict_def)
  have b: "2 * \<bar>fst (float_as_ratio x) - py_round x * snd (float_as_ratio x)\<bar>
           \<le> snd (float_as_ratio x)
       \<and> (2 * \<bar>fst (float_as_ratio x) - py_round x * snd (float_as_ratio x)\<bar>
            < snd (float_as_ratio x) \<or> even (py_round x))"
    using py_round_nearest [of x "fst (float_as_ratio x)" "snd (float_as_ratio x)"] by simp
  note f = preset_field_values [of s d, folded sp_def]
  have c: "map snd (scaled_params sp m) =
           map (\<lambda>v. py_round_half_away (int_times_float v m)) (map snd (to_dict sp))"
    unfolding scaled_params_def to_dict_def m_def
    using f [THEN roundings_equal(1), of i d'] by simp
  have d: "map snd (scaled_params sp m) =
           map (\<lambda>v. div_half_even (v * num) den) (map snd (to_dict sp))"
    unfolding scaled_params_def to_dict_def m_def num_def den_def
    using f [THEN roundings_equal(2), of i d' dl] by simp
  have e: "map snd (scaled_params sp m) =
           map (\<lambda>v. div_half_away (v * num) den) (map snd (to_dict sp))"
    unfolding scaled_params_def to_dict_def m_def num_def den_def
    using f [THEN roundings_equal(3), of i d' dl] by simp
  from a b c d e show ?thesis by blast
qed

end
